theory Spec2Isabelle
  imports Complex_Main "HOL-Library.Sublist"
begin

section \<open>JavaScript values\<close>

text \<open>
  A JavaScript string is a sequence of UTF-16 code units; the sources use code units
  beyond Latin-1 (U+2264, U+2265, U+03BC), so a string is a list of code-unit numbers.
  \<open>js\<close> turns an ASCII literal into such a list.
\<close>

type_synonym jsstring = "nat list"

definition js :: "string \<Rightarrow> jsstring" where
  "js s = map of_char s"

text \<open>
  Numbers: a finite Number is kept as the rational it is equal to, and the functions
  below produce only values of binary64. NaN and the two infinities are values of their
  own; the two zeros, which no comparison of the sources tells apart, are one value.
\<close>

datatype jsnum = NaN | NegInf | Fin rat | PosInf

text \<open>
  \<open>JBuiltin\<close> is a reference to an object of the runtime (a function or a prototype
  object), named by its global path.
\<close>

datatype jsval =
    JUndefined
  | JNull
  | JBool bool
  | JNum jsnum
  | JStr jsstring
  | JBuiltin string

text \<open>An object is a finite map from property names to values; a missing property reads as \<open>undefined\<close>.\<close>

type_synonym jsobject = "string \<rightharpoonup> jsval"

definition field :: "jsobject \<Rightarrow> string \<Rightarrow> jsval" where
  "field obj k = (case obj k of None \<Rightarrow> JUndefined | Some v \<Rightarrow> v)"

fun truthy :: "jsval \<Rightarrow> bool" where
  "truthy JUndefined = False"
| "truthy JNull = False"
| "truthy (JBool b) = b"
| "truthy (JNum NaN) = False"
| "truthy (JNum (Fin q)) = (q \<noteq> 0)"
| "truthy (JNum _) = True"
| "truthy (JStr s) = (s \<noteq> [])"
| "truthy (JBuiltin _) = True"

text \<open>\<open>a || b\<close>\<close>

definition js_or :: "jsval \<Rightarrow> jsval \<Rightarrow> jsval" where
  "js_or a b = (if truthy a then a else b)"

subsection \<open>Characters and the string built-ins\<close>

definition is_digit :: "nat \<Rightarrow> bool" where
  "is_digit c = (48 \<le> c \<and> c \<le> 57)"

definition is_letter :: "nat \<Rightarrow> bool" where
  "is_letter c = ((65 \<le> c \<and> c \<le> 90) \<or> (97 \<le> c \<and> c \<le> 122))"

text \<open>\<open>\w\<close> of a regular expression without the unicode flag: \<open>[A-Za-z0-9_]\<close>.\<close>

definition is_word :: "nat \<Rightarrow> bool" where
  "is_word c = (is_letter c \<or> is_digit c \<or> c = 95)"

text \<open>
  WhiteSpace and LineTerminator of ECMAScript: what \<open>trim\<close> removes, what \<open>\s\<close>
  matches and what \<open>parseFloat\<close> skips.
\<close>

definition is_space :: "nat \<Rightarrow> bool" where
  "is_space c = (c \<in> {9, 10, 11, 12, 13, 32, 160, 5760, 8232, 8233, 8239, 8287, 12288, 65279}
       \<or> (8192 \<le> c \<and> c \<le> 8202))"

definition trim :: "jsstring \<Rightarrow> jsstring" where
  "trim s = rev (dropWhile is_space (rev (dropWhile is_space s)))"

text \<open>
  \<open>String.prototype.toLowerCase\<close> maps a string through the Unicode case tables of
  the engine. On a string of Latin-1 code units (and of U+03BC, the \<open>\<mu>\<close> of the unit
  expressions) the result does not depend on the context of a letter and is written out:
  \<open>A\<close> to \<open>Z\<close> and U+00C0 to U+00DE without U+00D7 move up by 32, every other such
  code unit stays. For every other string the result is that of \<open>engine\<close>, the function
  of the engine itself, which is a parameter of the model: what is proved holds whatever
  the engine does there.
\<close>

definition lower_unit :: "nat \<Rightarrow> nat" where
  "lower_unit c = (if (65 \<le> c \<and> c \<le> 90) \<or> (192 \<le> c \<and> c \<le> 222 \<and> c \<noteq> 215) then c + 32 else c)"

definition plain_unit :: "nat \<Rightarrow> bool" where
  "plain_unit c = (c < 256 \<or> c = 956)"

definition toLowerCase :: "(jsstring \<Rightarrow> jsstring) \<Rightarrow> jsstring \<Rightarrow> jsstring" where
  "toLowerCase engine s = (if list_all plain_unit s then map lower_unit s else engine s)"

subsection \<open>parseFloat\<close>

fun digits_value :: "nat \<Rightarrow> jsstring \<Rightarrow> nat" where
  "digits_value acc [] = acc"
| "digits_value acc (c # cs) = digits_value (10 * acc + (c - 48)) cs"

text \<open>The exponent part \<open>[eE][+-]?digits\<close> at the head of a string, 0 when there is none.\<close>

definition exponent_part :: "jsstring \<Rightarrow> int" where
  "exponent_part r =
     (case r of
        [] \<Rightarrow> 0
      | c # r1 \<Rightarrow>
          if c = 101 \<or> c = 69 then
            (case r1 of
               [] \<Rightarrow> 0
             | d # r2 \<Rightarrow>
                 if d = 45 then
                   (if takeWhile is_digit r2 = [] then 0
                    else - int (digits_value 0 (takeWhile is_digit r2)))
                 else if d = 43 then int (digits_value 0 (takeWhile is_digit r2))
                 else int (digits_value 0 (takeWhile is_digit r1)))
          else 0)"

text \<open>
  The Number value of a non-negative rational \<open>n / d\<close>: the binary64 value nearest to
  it, the one with the even significand when two are equally near, and \<open>Infinity\<close> from
  \<open>2^1024 - 2^970\<close> on, half way between the largest binary64 value and \<open>2^1024\<close>.
  The fraction is scaled by powers of two until its integer part has 53 bits, or until
  the exponent of the subnormal numbers, \<open>-1074\<close>, is reached; then it is rounded to an
  integer. (This is the rounding of V8; the language standard allows an engine to give
  up after the 20th significant digit.)
\<close>

definition round_half_even :: "nat \<Rightarrow> nat \<Rightarrow> nat" where
  "round_half_even n d =
     (let f = n div d; r = n mod d
      in if 2 * r < d then f
         else if d < 2 * r then f + 1
         else if even f then f
         else f + 1)"

function shift_down :: "nat \<Rightarrow> nat \<Rightarrow> int \<Rightarrow> nat \<times> nat \<times> int" where
  "shift_down n d e = (if 0 < d \<and> 2 ^ 53 * d \<le> n then shift_down n (2 * d) (e + 1) else (n, d, e))"
  by pat_completeness auto
termination
  by (relation "measure (\<lambda>(n, d, e). Suc n - 2 ^ 53 * d)") auto

function shift_up :: "nat \<Rightarrow> nat \<Rightarrow> int \<Rightarrow> nat \<times> nat \<times> int" where
  "shift_up n d e = (if n < 2 ^ 52 * d \<and> - 1074 < e then shift_up (2 * n) d (e - 1) else (n, d, e))"
  by pat_completeness auto
termination
  by (relation "measure (\<lambda>(n, d, e). nat (e + 1074))") auto

declare shift_down.simps [simp del] shift_up.simps [simp del]

definition scale2 :: "rat \<Rightarrow> int \<Rightarrow> rat" where
  "scale2 q e = (if 0 \<le> e then q * 2 ^ nat e else q / 2 ^ nat (- e))"

definition binary64 :: "nat \<Rightarrow> nat \<Rightarrow> jsnum" where
  "binary64 n d =
     (if n = 0 then Fin 0
      else if (2 ^ 1024 - 2 ^ 970) * d \<le> n then PosInf
      else
        (case shift_down n d 0 of
           (n1, d1, e1) \<Rightarrow>
             (case shift_up n1 d1 e1 of
                (n2, d2, e2) \<Rightarrow> Fin (scale2 (of_nat (round_half_even n2 d2)) e2))))"

text \<open>The Number value of \<open>m \<times> 10^x\<close>.\<close>

definition decimal_value :: "nat \<Rightarrow> int \<Rightarrow> jsnum" where
  "decimal_value m x = (if 0 \<le> x then binary64 (m * 10 ^ nat x) 1 else binary64 m (10 ^ nat (- x)))"

text \<open>
  The unsigned part of a StrDecimalLiteral at the head of \<open>u\<close>: \<open>Infinity\<close>, or
  digits with an optional fraction and exponent, or a fraction that starts with the dot.
  Its value is the integer written by all its digits times the power of ten that the
  exponent and the length of the fraction give.
\<close>

definition unsigned_literal :: "jsstring \<Rightarrow> jsnum" where
  "unsigned_literal u =
     (if take 8 u = js ''Infinity'' then PosInf
      else
        (let ip = takeWhile is_digit u;
             r1 = dropWhile is_digit u;
             dotted = (r1 \<noteq> [] \<and> hd r1 = 46);
             fp = (if dotted then takeWhile is_digit (tl r1) else []);
             r2 = (if dotted then dropWhile is_digit (tl r1) else r1)
         in if ip = [] \<and> fp = [] then NaN
            else decimal_value (digits_value 0 (ip @ fp)) (exponent_part r2 - int (length fp))))"

definition negate :: "jsnum \<Rightarrow> jsnum" where
  "negate n = (case n of NaN \<Rightarrow> NaN | NegInf \<Rightarrow> PosInf | PosInf \<Rightarrow> NegInf | Fin q \<Rightarrow> Fin (- q))"

definition parseFloat_str :: "jsstring \<Rightarrow> jsnum" where
  "parseFloat_str s =
     (case dropWhile is_space s of
        [] \<Rightarrow> NaN
      | c # r \<Rightarrow>
          if c = 45 then negate (unsigned_literal r)
          else if c = 43 then unsigned_literal r
          else unsigned_literal (c # r))"

text \<open>
  \<open>parseFloat(v)\<close> parses \<open>String(v)\<close>. The strings of \<open>undefined\<close>, \<open>null\<close>, the
  booleans and the runtime objects have no numeric prefix; the string of a number parses
  back to that number.
\<close>

fun parseFloat :: "jsval \<Rightarrow> jsnum" where
  "parseFloat (JStr s) = parseFloat_str s"
| "parseFloat (JNum n) = n"
| "parseFloat _ = NaN"

definition isNaN :: "jsnum \<Rightarrow> bool" where
  "isNaN n = (n = NaN)"

text \<open>\<open>a >= b\<close> and \<open>a <= b\<close> on numbers; false as soon as one side is NaN.\<close>

fun num_le :: "jsnum \<Rightarrow> jsnum \<Rightarrow> bool" where
  "num_le NaN _ = False"
| "num_le _ NaN = False"
| "num_le NegInf _ = True"
| "num_le _ PosInf = True"
| "num_le (Fin a) (Fin b) = (a \<le> b)"
| "num_le (Fin a) NegInf = False"
| "num_le PosInf _ = False"

definition num_ge :: "jsnum \<Rightarrow> jsnum \<Rightarrow> bool" where
  "num_ge a b = num_le b a"

subsection \<open>Exceptions\<close>

text \<open>
  What a statement of the source throws. \<open>TypeError\<close> is raised by the runtime,
  \<open>Error\<close> is an object made by \<open>new Error(message)\<close>; neither has a \<open>code\<close>
  property. \<open>SystemError\<close> stands for the errors of the file-system layer, which carry
  a \<open>code\<close> such as \<open>ENOENT\<close>.
\<close>

datatype js_error = TypeError string | Error jsstring | SystemError string jsstring

definition message_of :: "js_error \<Rightarrow> jsstring" where
  "message_of err = (case err of TypeError m \<Rightarrow> js m | Error m \<Rightarrow> m | SystemError c m \<Rightarrow> m)"

definition code_of :: "js_error \<Rightarrow> jsval" where
  "code_of err = (case err of SystemError c m \<Rightarrow> JStr (js c) | _ \<Rightarrow> JUndefined)"

section \<open>The reconciler of \<open>/analyzeWithDataset\<close> (src/index.js)\<close>

text \<open>
  The parsed model output: each of \<open>evaluated\<close> and \<open>unmatched\<close> is an array of
  objects, or something that \<open>Array.isArray\<close> rejects (\<open>None\<close>).
\<close>

record model_output =
  mo_evaluated :: "jsobject list option"
  mo_unmatched :: "jsobject list option"

definition allEntries :: "model_output \<Rightarrow> jsobject list" where
  "allEntries mo =
     (case mo_evaluated mo of Some es \<Rightarrow> es | None \<Rightarrow> [])
     @ (case mo_unmatched mo of Some us \<Rightarrow> us | None \<Rightarrow> [])"

definition isValidMatch :: "jsobject \<Rightarrow> bool" where
  "isValidMatch entry =
     (field entry ''matched_marker'' \<noteq> JNull \<and>
      field entry ''matched_marker'' \<noteq> JStr [] \<and>
      (field entry ''min'' \<noteq> JNull \<or> field entry ''max'' \<noteq> JNull \<or> field entry ''severity'' \<noteq> JNull))"

text \<open>The local variable \<open>isWithinRange\<close> of the valid branch, as the loop body computes it.\<close>

definition isWithinRange :: "jsobject \<Rightarrow> jsval" where
  "isWithinRange entry =
     (let patientValue = parseFloat (field entry ''value'');
          minRange = parseFloat (field entry ''min'');
          maxRange = parseFloat (field entry ''max'')
      in if \<not> isNaN patientValue then
           (if \<not> isNaN minRange \<and> \<not> isNaN maxRange then
              JBool (num_ge patientValue minRange \<and> num_le patientValue maxRange)
            else if \<not> isNaN minRange \<and> isNaN maxRange then JBool (num_ge patientValue minRange)
            else if isNaN minRange \<and> \<not> isNaN maxRange then JBool (num_le patientValue maxRange)
            else JBool True)
         else JNull)"

text \<open>The object pushed to \<open>unmatched\<close>.\<close>

definition unmatched_record :: "jsobject \<Rightarrow> jsobject" where
  "unmatched_record entry =
     [''name'' \<mapsto> js_or (field entry ''name'') JNull,
      ''value'' \<mapsto> js_or (field entry ''value'') JNull,
      ''unit'' \<mapsto> js_or (field entry ''unit'') JNull,
      ''matched_marker'' \<mapsto> JNull,
      ''gender_used'' \<mapsto> JNull,
      ''min'' \<mapsto> JNull,
      ''max'' \<mapsto> JNull,
      ''severity'' \<mapsto> JNull]"

text \<open>
  One round of the \<open>forEach\<close>: the state is the pair of arrays \<open>evaluated\<close>,
  \<open>unmatched\<close>. The valid branch computes \<open>isWithinRange\<close> and pushes a spread copy of
  the entry, \<open>{...entry}\<close>, which has the entry's own properties and no other.
\<close>

definition reconcile_entry :: "jsobject list \<times> jsobject list \<Rightarrow> jsobject \<Rightarrow> jsobject list \<times> jsobject list" where
  "reconcile_entry st entry =
     (case st of (evaluated, unmatched) \<Rightarrow>
        if isValidMatch entry then
          (let computed = isWithinRange entry
           in (evaluated @ [entry], unmatched))
        else (evaluated, unmatched @ [unmatched_record entry]))"

definition reconcile :: "model_output \<Rightarrow> jsobject list \<times> jsobject list" where
  "reconcile mo = foldl reconcile_entry ([], []) (allEntries mo)"

section \<open>Post-processing of extracted biomarkers (src/unnamed/part_000)\<close>

subsection \<open>The numeric value of \<open>postProcessBiomarkers\<close>\<close>

text \<open>\<open>value.replace(/[<>\<le>\<ge>]/g, "")\<close>: the code units of \<open><\<close>, \<open>>\<close>, U+2264 and U+2265 are dropped.\<close>

definition strip_operators :: "jsstring \<Rightarrow> jsstring" where
  "strip_operators s = filter (\<lambda>c. c \<notin> {60, 62, 8804, 8805}) s"

text \<open>
  Group 1 of \<open>cleanValue.match(/^(\d+\.?\d*)/)\<close>, \<open>None\<close> when the expression does not
  match. Each quantifier is greedy and nothing follows the group, so no backtracking
  changes the match.
\<close>

definition numericMatch :: "jsstring \<Rightarrow> jsstring option" where
  "numericMatch s =
     (let ip = takeWhile is_digit s; r = dropWhile is_digit s
      in if ip = [] then None
         else if r \<noteq> [] \<and> hd r = 46 then Some (ip @ [46] @ takeWhile is_digit (tl r))
         else Some ip)"

text \<open>
  The block that sets \<open>numericValue\<close> (the spec's \<open>parseNumeric\<close>); its result is the
  value of \<open>processedBiomarker.numericValue\<close>, which starts as \<open>null\<close>. A truthy value
  that is not a string has no \<open>replace\<close> method, and the call throws.
\<close>

definition parseNumeric :: "jsval \<Rightarrow> js_error + jsval" where
  "parseNumeric v =
     (if truthy v then
        (case v of
           JStr s \<Rightarrow>
             (let cleanValue = trim (strip_operators s)
              in case numericMatch cleanValue of
                   Some m \<Rightarrow>
                     if \<not> isNaN (parseFloat_str m) then Inr (JNum (parseFloat_str m))
                     else Inr JNull
                 | None \<Rightarrow> Inr JNull)
         | _ \<Rightarrow> Inl (TypeError ''biomarker.value.replace is not a function''))
      else Inr JNull)"

subsection \<open>\<open>standardizeBiomarkerName\<close>\<close>

text \<open>The own properties of the object literal \<open>standardizations\<close>, in source order.\<close>

definition standardizations :: "(jsstring \<times> jsstring) list" where
  "standardizations =
     [(js ''wbc'', js ''White Blood Cell Count''),
      (js ''white blood cells'', js ''White Blood Cell Count''),
      (js ''leukocytes'', js ''White Blood Cell Count''),
      (js ''rbc'', js ''Red Blood Cell Count''),
      (js ''red blood cells'', js ''Red Blood Cell Count''),
      (js ''hgb'', js ''Hemoglobin''),
      (js ''hb'', js ''Hemoglobin''),
      (js ''hct'', js ''Hematocrit''),
      (js ''plt'', js ''Platelet Count''),
      (js ''platelets'', js ''Platelet Count''),
      (js ''mcv'', js ''Mean Corpuscular Volume''),
      (js ''mch'', js ''Mean Corpuscular Hemoglobin''),
      (js ''mchc'', js ''Mean Corpuscular Hemoglobin Concentration''),
      (js ''rdw'', js ''Red Cell Distribution Width''),
      (js ''glu'', js ''Glucose''),
      (js ''glucose'', js ''Glucose''),
      (js ''blood sugar'', js ''Glucose''),
      (js ''bun'', js ''Blood Urea Nitrogen''),
      (js ''cr'', js ''Creatinine''),
      (js ''creat'', js ''Creatinine''),
      (js ''na'', js ''Sodium''),
      (js ''k'', js ''Potassium''),
      (js ''cl'', js ''Chloride''),
      (js ''co2'', js ''Carbon Dioxide''),
      (js ''chol'', js ''Total Cholesterol''),
      (js ''cholesterol'', js ''Total Cholesterol''),
      (js ''hdl'', js ''HDL Cholesterol''),
      (js ''ldl'', js ''LDL Cholesterol''),
      (js ''trig'', js ''Triglycerides''),
      (js ''triglycerides'', js ''Triglycerides''),
      (js ''alt'', js ''Alanine Aminotransferase''),
      (js ''sgpt'', js ''Alanine Aminotransferase''),
      (js ''ast'', js ''Aspartate Aminotransferase''),
      (js ''sgot'', js ''Aspartate Aminotransferase''),
      (js ''alkp'', js ''Alkaline Phosphatase''),
      (js ''alp'', js ''Alkaline Phosphatase''),
      (js ''tbili'', js ''Total Bilirubin''),
      (js ''bilirubin'', js ''Total Bilirubin''),
      (js ''tsh'', js ''Thyroid Stimulating Hormone''),
      (js ''t4'', js ''Thyroxine''),
      (js ''t3'', js ''Triiodothyronine''),
      (js ''ck'', js ''Creatine Kinase''),
      (js ''cpk'', js ''Creatine Kinase''),
      (js ''ck-mb'', js ''Creatine Kinase-MB''),
      (js ''troponin i'', js ''Troponin I''),
      (js ''troponin t'', js ''Troponin T''),
      (js ''crp'', js ''C-Reactive Protein''),
      (js ''esr'', js ''Erythrocyte Sedimentation Rate''),
      (js ''hba1c'', js ''Hemoglobin A1c''),
      (js ''a1c'', js ''Hemoglobin A1c'')]"

text \<open>
  The literal is an ordinary object, so its prototype is \<open>Object.prototype\<close>, and a
  property read that finds no own property continues there. These are the properties
  of \<open>Object.prototype\<close>; each value is a function or an object.
\<close>

definition object_prototype :: "(jsstring \<times> jsval) list" where
  "object_prototype =
     [(js ''constructor'', JBuiltin ''Object''),
      (js ''__proto__'', JBuiltin ''Object.prototype''),
      (js ''hasOwnProperty'', JBuiltin ''Object.prototype.hasOwnProperty''),
      (js ''isPrototypeOf'', JBuiltin ''Object.prototype.isPrototypeOf''),
      (js ''propertyIsEnumerable'', JBuiltin ''Object.prototype.propertyIsEnumerable''),
      (js ''toLocaleString'', JBuiltin ''Object.prototype.toLocaleString''),
      (js ''toString'', JBuiltin ''Object.prototype.toString''),
      (js ''valueOf'', JBuiltin ''Object.prototype.valueOf''),
      (js ''__defineGetter__'', JBuiltin ''Object.prototype.__defineGetter__''),
      (js ''__defineSetter__'', JBuiltin ''Object.prototype.__defineSetter__''),
      (js ''__lookupGetter__'', JBuiltin ''Object.prototype.__lookupGetter__''),
      (js ''__lookupSetter__'', JBuiltin ''Object.prototype.__lookupSetter__'')]"

text \<open>\<open>standardizations[key]\<close>\<close>

definition get_standardization :: "jsstring \<Rightarrow> jsval" where
  "get_standardization key =
     (case map_of standardizations key of
        Some canonical \<Rightarrow> JStr canonical
      | None \<Rightarrow>
          (case map_of object_prototype key of
             Some inherited \<Rightarrow> inherited
           | None \<Rightarrow> JUndefined))"

text \<open>
  \<open>name.toLowerCase()\<close> throws on \<open>undefined\<close> and \<open>null\<close> and on every value that
  has no such method.
\<close>

definition standardizeBiomarkerName :: "(jsstring \<Rightarrow> jsstring) \<Rightarrow> jsval \<Rightarrow> js_error + jsval" where
  "standardizeBiomarkerName engine name =
     (case name of
        JStr s \<Rightarrow>
          (let lowerName = trim (toLowerCase engine s)
           in Inr (js_or (get_standardization lowerName) name))
      | JUndefined \<Rightarrow> Inl (TypeError ''Cannot read properties of undefined (reading 'toLowerCase')'')
      | JNull \<Rightarrow> Inl (TypeError ''Cannot read properties of null (reading 'toLowerCase')'')
      | _ \<Rightarrow> Inl (TypeError ''name.toLowerCase is not a function''))"

subsection \<open>\<open>extractUnitFromReferenceRange\<close>\<close>

text \<open>
  Each of the unit expressions is a fixed sequence of characters and character classes,
  so a pattern is the list of its classes, a class being the list of code units it
  accepts. \<open>lit\<close> is a literal text; \<open>ci\<close> is a lower-case literal under the \<open>i\<close>
  flag, where each letter also accepts its capital (without the \<open>u\<close> flag no code unit
  beyond ASCII is folded onto an ASCII letter).
\<close>

type_synonym pattern = "nat list list"

definition lit :: "string \<Rightarrow> pattern" where
  "lit s = map (\<lambda>c. [of_char c]) s"

definition ci :: "string \<Rightarrow> pattern" where
  "ci s = map (\<lambda>c. [of_char c, of_char c - 32]) s"

text \<open>U+03BC is 956, U+00B3 is 179, U+00B0 is 176.\<close>

definition unitPatterns :: "pattern list" where
  "unitPatterns =
     [lit ''mg/d'' @ [js ''Ll''],
      lit ''g/d'' @ [js ''Ll''],
      [[956]] @ lit ''g/'' @ [js ''Ll''],
      lit ''mcg/'' @ [js ''Ll''],
      lit ''ng/m'' @ [js ''Ll''],
      lit ''pg/m'' @ [js ''Ll''],
      lit ''IU/'' @ [js ''Ll''],
      lit ''mIU/'' @ [js ''Ll''],
      lit ''U/'' @ [js ''Ll''],
      lit ''mmol/'' @ [js ''Ll''],
      [[956]] @ lit ''mol/'' @ [js ''Ll''],
      lit ''nmol/'' @ [js ''Ll''],
      lit ''x10'' @ [[179, 51]] @ lit ''/'' @ [[956]] @ [js ''Ll''],
      lit ''K/'' @ [[956]] @ [js ''Ll''],
      lit ''10'' @ [[179, 51]] @ lit ''/'' @ [[956]] @ [js ''Ll''],
      lit ''cells/'' @ [[956]] @ [js ''Ll''],
      lit ''/'' @ [[956]] @ [js ''Ll''],
      lit ''mg/24h'',
      lit ''g/24h'',
      lit ''mmHg'',
      lit ''bpm'',
      [[176]] @ [js ''CF''],
      lit ''%'',
      ci ''ratio'',
      ci ''index'',
      lit ''sec'',
      lit ''min'',
      ci ''fl'',
      ci ''pg'']"

text \<open>The pattern matches at the head of the string.\<close>

fun match_at :: "pattern \<Rightarrow> jsstring \<Rightarrow> bool" where
  "match_at [] s = True"
| "match_at (cl # p) [] = False"
| "match_at (cl # p) (c # s) = (c \<in> set cl \<and> match_at p s)"

text \<open>
  \<open>referenceRange.match(pattern)[0]\<close> for a global expression: the leftmost match,
  \<open>None\<close> when \<open>match\<close> returns \<open>null\<close>.
\<close>

fun first_match :: "pattern \<Rightarrow> jsstring \<Rightarrow> jsstring option" where
  "first_match p [] = (if p = [] then Some [] else None)"
| "first_match p (c # s) =
     (if match_at p (c # s) then Some (take (length p) (c # s)) else first_match p s)"

text \<open>The \<open>for\<close> loop over \<open>unitPatterns\<close>, which returns at the first pattern that matches.\<close>

fun try_patterns :: "pattern list \<Rightarrow> jsstring \<Rightarrow> jsstring option" where
  "try_patterns [] s = None"
| "try_patterns (p # ps) s =
     (case first_match p s of Some m \<Rightarrow> Some m | None \<Rightarrow> try_patterns ps s)"

text \<open>
  The fallback expression
  \<^verbatim>\<open>/\b[a-zA-Z]+\/[a-zA-Z]+\b|\b[\<mu>]?[a-zA-Z]+\/[a-zA-Z]+\b|\b[a-zA-Z]{1,5}\b(?=\s|$)/g\<close>.
  \<open>boundary prev s\<close> is \<open>\b\<close> at a position whose preceding code unit is \<open>prev\<close> and
  whose remaining input is \<open>s\<close>.
\<close>

definition boundary :: "nat option \<Rightarrow> jsstring \<Rightarrow> bool" where
  "boundary prev s =
     ((case prev of None \<Rightarrow> False | Some p \<Rightarrow> is_word p)
        \<noteq> (case s of [] \<Rightarrow> False | c # _ \<Rightarrow> is_word c))"

text \<open>
  \<open>[a-zA-Z]+\/[a-zA-Z]+\b\<close> at the head of \<open>s\<close>. A run of letters shorter than the
  longest one is followed by a letter, where neither the slash nor \<open>\b\<close> can match, so
  only the longest runs need to be tried.
\<close>

definition slash_unit :: "jsstring \<Rightarrow> jsstring option" where
  "slash_unit s =
     (let a = takeWhile is_letter s; r = dropWhile is_letter s
      in if a = [] then None
         else
           (case r of
              [] \<Rightarrow> None
            | c # r1 \<Rightarrow>
                if c \<noteq> 47 then None
                else
                  (let b = takeWhile is_letter r1; r2 = dropWhile is_letter r1
                   in if b = [] then None
                      else if boundary (Some (last b)) r2 then Some (a @ [47] @ b)
                      else None)))"

definition alternative1 :: "nat option \<Rightarrow> jsstring \<Rightarrow> jsstring option" where
  "alternative1 prev s = (if boundary prev s then slash_unit s else None)"

text \<open>The optional \<open>\<mu>\<close> is greedy: first with it, then without.\<close>

definition alternative2 :: "nat option \<Rightarrow> jsstring \<Rightarrow> jsstring option" where
  "alternative2 prev s =
     (if boundary prev s then
        (case s of
           [] \<Rightarrow> None
         | c # r \<Rightarrow>
             if c = 956 then
               (case slash_unit r of Some m \<Rightarrow> Some (956 # m) | None \<Rightarrow> slash_unit s)
             else slash_unit s)
      else None)"

text \<open>
  \<open>[a-zA-Z]{1,5}\b(?=\s|$)\<close> after the leading \<open>\b\<close>: the whole run of letters, when
  it has at most five letters and white space or the end of the input follows.
\<close>

definition alternative3 :: "nat option \<Rightarrow> jsstring \<Rightarrow> jsstring option" where
  "alternative3 prev s =
     (if boundary prev s then
        (let a = takeWhile is_letter s; r = dropWhile is_letter s
         in if a \<noteq> [] \<and> length a \<le> 5 \<and> (r = [] \<or> is_space (hd r)) then Some a else None)
      else None)"

definition fallback_at :: "nat option \<Rightarrow> jsstring \<Rightarrow> jsstring option" where
  "fallback_at prev s =
     (case alternative1 prev s of
        Some m \<Rightarrow> Some m
      | None \<Rightarrow>
          (case alternative2 prev s of
             Some m \<Rightarrow> Some m
           | None \<Rightarrow> alternative3 prev s))"

text \<open>
  All matches of the global expression, left to right. \<open>skip\<close> counts the code units
  of the last match still to be passed over; a match is never empty.
\<close>

fun scan :: "nat option \<Rightarrow> nat \<Rightarrow> jsstring \<Rightarrow> jsstring list" where
  "scan prev skip [] = []"
| "scan prev skip (c # cs) =
     (if 0 < skip then scan (Some c) (skip - 1) cs
      else
        (case fallback_at prev (c # cs) of
           Some m \<Rightarrow> m # scan (Some c) (length m - 1) cs
         | None \<Rightarrow> scan (Some c) 0 cs))"

definition fallbackMatches :: "jsstring \<Rightarrow> jsstring list" where
  "fallbackMatches s = scan None 0 s"

definition nonUnits :: "jsstring list" where
  "nonUnits =
     map js [''normal'', ''abnormal'', ''high'', ''low'', ''range'', ''reference'', ''adult'',
             ''male'', ''female'', ''years'', ''old'', ''seen'', ''none'', ''few'', ''many'',
             ''rare'', ''moderate'', ''negative'', ''positive'']"

definition filteredMatches :: "(jsstring \<Rightarrow> jsstring) \<Rightarrow> jsstring \<Rightarrow> jsstring list" where
  "filteredMatches engine s =
     filter (\<lambda>m. toLowerCase engine m \<notin> set nonUnits \<and> length m \<le> 8 \<and> (\<exists>c \<in> set m. is_letter c))
       (fallbackMatches s)"

definition extractUnitFromReferenceRange :: "(jsstring \<Rightarrow> jsstring) \<Rightarrow> jsval \<Rightarrow> jsval" where
  "extractUnitFromReferenceRange engine referenceRange =
     (if \<not> truthy referenceRange then JNull
      else
        (case referenceRange of
           JStr s \<Rightarrow>
             (case try_patterns unitPatterns s of
                Some m \<Rightarrow> JStr m
              | None \<Rightarrow>
                  (case filteredMatches engine s of
                     [] \<Rightarrow> JNull
                   | m # _ \<Rightarrow> JStr m))
         | _ \<Rightarrow> JNull))"

subsection \<open>\<open>postProcessBiomarkers\<close>\<close>

text \<open>
  The callback of \<open>biomarkers.map\<close>, for one extracted biomarker object. The unit is
  taken from the reference range only when the biomarker has none.
\<close>

definition postProcessBiomarker :: "(jsstring \<Rightarrow> jsstring) \<Rightarrow> jsobject \<Rightarrow> js_error + jsobject" where
  "postProcessBiomarker engine biomarker =
     (case standardizeBiomarkerName engine (js_or (field biomarker ''name'') (JStr [])) of
        Inl err \<Rightarrow> Inl err
      | Inr name \<Rightarrow>
          (let unit0 = js_or (field biomarker ''unit'') JNull;
               referenceRange = js_or (field biomarker ''referenceRange'') JNull;
               extractedUnit = extractUnitFromReferenceRange engine referenceRange;
               unit = (if \<not> truthy unit0 \<and> truthy referenceRange \<and> truthy extractedUnit
                       then extractedUnit else unit0)
           in case parseNumeric (field biomarker ''value'') of
                Inl err \<Rightarrow> Inl err
              | Inr numericValue \<Rightarrow>
                  Inr [''name'' \<mapsto> name,
                       ''group'' \<mapsto> js_or (field biomarker ''group'') JNull,
                       ''unit'' \<mapsto> unit,
                       ''value'' \<mapsto> js_or (field biomarker ''value'') JNull,
                       ''numericValue'' \<mapsto> numericValue,
                       ''referenceRange'' \<mapsto> referenceRange]))"

text \<open>\<open>biomarkers.map(...)\<close>: the first callback that throws ends the call.\<close>

fun postProcessBiomarkers :: "(jsstring \<Rightarrow> jsstring) \<Rightarrow> jsobject list \<Rightarrow> js_error + jsobject list" where
  "postProcessBiomarkers engine [] = Inr []"
| "postProcessBiomarkers engine (b # bs) =
     (case postProcessBiomarker engine b of
        Inl err \<Rightarrow> Inl err
      | Inr r \<Rightarrow>
          (case postProcessBiomarkers engine bs of
             Inl err \<Rightarrow> Inl err
           | Inr rs \<Rightarrow> Inr (r # rs)))"

section \<open>The reference dataset (src/unnamed/part_000)\<close>

subsection \<open>\<open>loadDatasetWithPrecision\<close>\<close>

text \<open>
  A row of \<open>sheet_to_json(worksheet, {defval: null, raw: false, ...})\<close>: every property
  is the formatted text of a cell, or \<open>null\<close> for an empty cell, and a column the sheet
  lacks is a missing property. The loader reads a cell only through \<open>||\<close>, which treats
  \<open>null\<close> and a missing property alike, so a row is a partial map from header to text
  and \<open>None\<close> stands for both.
\<close>

type_synonym sheet_row = "string \<rightharpoonup> jsstring"

text \<open>\<open>a || b\<close> on cells, and \<open>a || ""\<close>.\<close>

definition cell_or :: "jsstring option \<Rightarrow> jsstring option \<Rightarrow> jsstring option" where
  "cell_or a b = (case a of Some t \<Rightarrow> if t \<noteq> [] then a else b | None \<Rightarrow> b)"

definition or_empty :: "jsstring option \<Rightarrow> jsstring" where
  "or_empty a = (case a of Some t \<Rightarrow> t | None \<Rightarrow> [])"

text \<open>The fields \<open>min\<close> and \<open>max\<close> of a loaded row are \<open>min_f\<close> and \<open>max_f\<close> here.\<close>

record dataset_row =
  marker :: jsstring
  gender :: jsstring
  min_f :: jsstring
  max_f :: jsstring
  severity :: jsstring

text \<open>The text of the marker cell of a source row, \<open>row["Blood Test Marker"] || row["blood test marker"] || ""\<close>.\<close>

definition marker_text :: "sheet_row \<Rightarrow> jsstring" where
  "marker_text row = or_empty (cell_or (row ''Blood Test Marker'') (row ''blood test marker''))"

text \<open>The callback of \<open>filter\<close>: \<open>marker && marker.trim().length > 0\<close>.\<close>

definition row_kept :: "sheet_row \<Rightarrow> bool" where
  "row_kept row =
     (let marker = cell_or (row ''Blood Test Marker'') (row ''blood test marker'')
      in case marker of
           Some m \<Rightarrow> m \<noteq> [] \<and> 0 < length (trim m)
         | None \<Rightarrow> False)"

text \<open>The callback of \<open>map\<close>.\<close>

definition clean_row :: "(jsstring \<Rightarrow> jsstring) \<Rightarrow> sheet_row \<Rightarrow> dataset_row" where
  "clean_row engine row =
     \<lparr>marker = trim (or_empty (cell_or (row ''Blood Test Marker'') (row ''blood test marker''))),
      gender = trim (toLowerCase engine (or_empty (cell_or (row ''Gender'') (row ''gender'')))),
      min_f = or_empty (cell_or (row ''Minimum'') (row ''minimum'')),
      max_f = or_empty (cell_or (row ''Maximum'') (row ''maximum'')),
      severity =
        or_empty (cell_or (row ''Severity Score (1 = mild, 5 = highly significant)'')
                          (row ''severity score (1 = mild, 5 = highly significant)''))\<rparr>"

text \<open>
  A workbook file, as far as the loader looks at it: the rows of its first sheet. The
  file system maps the paths that exist to their workbooks.
\<close>

record workbook =
  first_sheet :: "sheet_row list"

type_synonym filesystem = "jsstring \<rightharpoonup> workbook"

definition loadDatasetWithPrecision ::
  "(jsstring \<Rightarrow> jsstring) \<Rightarrow> filesystem \<Rightarrow> jsstring \<Rightarrow> js_error + dataset_row list" where
  "loadDatasetWithPrecision engine fs xlsxPath =
     (case fs xlsxPath of
        None \<Rightarrow> Inl (Error (js ''Dataset file not found: '' @ xlsxPath))
      | Some wb \<Rightarrow>
          (let rawData = first_sheet wb;
               cleanedData = map (clean_row engine) (filter row_kept rawData)
           in Inr cleanedData))"

subsection \<open>\<open>loadDatasetRows\<close> (src/index.js)\<close>

text \<open>
  The loader of \<open>src/index.js\<close> calls \<open>sheet_to_json(sheet, {defval: null})\<close> and
  returns what it gets: the rows of the first sheet as objects with the raw cell values
  (\<open>null\<close> for an empty cell). For this script a workbook file is that list of rows.
\<close>

record raw_workbook =
  raw_first_sheet :: "jsobject list"

type_synonym raw_filesystem = "jsstring \<rightharpoonup> raw_workbook"

definition loadDatasetRows :: "raw_filesystem \<Rightarrow> jsstring \<Rightarrow> js_error + jsobject list" where
  "loadDatasetRows fs xlsxPath =
     (case fs xlsxPath of
        None \<Rightarrow>
          Inl (Error (js ''Dataset file not found at: '' @ xlsxPath @
                 js ''. Please ensure 'All_Descriptions_Completed.xlsx' is in the same directory as your server script.''))
      | Some wb \<Rightarrow> Inr (raw_first_sheet wb))"

subsection \<open>\<open>generatePrecisionCSV\<close>\<close>

text \<open>\<open>lines.join(sep)\<close>\<close>

fun join :: "jsstring \<Rightarrow> jsstring list \<Rightarrow> jsstring" where
  "join sep [] = []"
| "join sep [x] = x"
| "join sep (x # y # ys) = x @ sep @ join sep (y # ys)"

text \<open>\<open>s.replace(/"/g, '""')\<close>; the quotation mark is code unit 34.\<close>

definition escape_quotes :: "jsstring \<Rightarrow> jsstring" where
  "escape_quotes s = concat (map (\<lambda>c. if c = 34 then [34, 34] else [c]) s)"

definition quoted :: "jsstring \<Rightarrow> jsstring" where
  "quoted s = [34] @ s @ [34]"

definition csvRow :: "dataset_row \<Rightarrow> jsstring list" where
  "csvRow row =
     [quoted (escape_quotes (marker row)),
      quoted (gender row),
      quoted (min_f row),
      quoted (max_f row),
      quoted (severity row)]"

definition generatePrecisionCSV :: "dataset_row list \<Rightarrow> jsstring" where
  "generatePrecisionCSV datasetRows =
     (let headers = map js [''Marker'', ''Gender'', ''Min'', ''Max'', ''Severity''];
          csvLines = [join (js '','') headers] @ map (\<lambda>row. join (js '','') (csvRow row)) datasetRows
      in join [10] csvLines)"

subsection \<open>The error handler of \<open>/analyzeWithDataset\<close>\<close>

text \<open>\<open>s.includes(t)\<close>\<close>

definition str_includes :: "jsstring \<Rightarrow> jsstring \<Rightarrow> bool" where
  "str_includes s t = list_ex (\<lambda>i. take (length t) (drop i s) = t) [0 ..< Suc (length s)]"

text \<open>
  The JSON body of the 500 response (the \<open>debug\<close> field, which is set only in
  development mode, is left out).
\<close>

record error_response =
  success :: bool
  message :: jsstring
  error_type :: jsstring

definition analysis_error_response :: "js_error \<Rightarrow> error_response" where
  "analysis_error_response err =
     (if str_includes (message_of err) (js ''Unexpected end of JSON'') then
        \<lparr>success = False,
         message = js ''AI analysis was incomplete. Please try again.'',
         error_type = js ''incomplete_json_response''\<rparr>
      else if code_of err = JStr (js ''ENOENT'') then
        \<lparr>success = False,
         message = js ''Dataset file not found. Please ensure 'All_Descriptions_Completed.xlsx' is available.'',
         error_type = js ''missing_dataset''\<rparr>
      else
        \<lparr>success = False,
         message = js ''Analysis failed: '' @ message_of err,
         error_type = js ''analysis_error''\<rparr>)"

text \<open>
  The route up to the point where the dataset text is ready: what the \<open>try\<close> block
  has computed, or the response of the \<open>catch\<close> block.
\<close>

definition analyzeWithDataset_dataset ::
  "(jsstring \<Rightarrow> jsstring) \<Rightarrow> filesystem \<Rightarrow> jsstring \<Rightarrow> error_response + jsstring" where
  "analyzeWithDataset_dataset engine fs datasetPath =
     (case loadDatasetWithPrecision engine fs datasetPath of
        Inl err \<Rightarrow> Inl (analysis_error_response err)
      | Inr dataset \<Rightarrow> Inr (generatePrecisionCSV dataset))"

section \<open>Concrete inputs\<close>

subsection \<open>Candidates of the reconciler\<close>

definition glucose :: jsobject where
  "glucose =
     [''name'' \<mapsto> JStr (js ''Glucose''),
      ''value'' \<mapsto> JStr (js ''105''),
      ''matched_marker'' \<mapsto> JStr (js ''Glucose''),
      ''min'' \<mapsto> JStr (js ''70''),
      ''max'' \<mapsto> JStr (js ''99''),
      ''severity'' \<mapsto> JStr (js ''2'')]"

definition exotic :: jsobject where
  "exotic =
     [''name'' \<mapsto> JStr (js ''Exotic Marker''),
      ''value'' \<mapsto> JStr (js ''3''),
      ''matched_marker'' \<mapsto> JNull,
      ''min'' \<mapsto> JNull,
      ''max'' \<mapsto> JNull,
      ''severity'' \<mapsto> JNull]"

text \<open>A candidate that has a name and nothing else.\<close>

definition zinc :: jsobject where
  "zinc = [''name'' \<mapsto> JStr (js ''Zinc'')]"

text \<open>A candidate that fails the gate and carries an empty value and populated match fields.\<close>

definition blank_value :: jsobject where
  "blank_value =
     [''name'' \<mapsto> JStr (js ''Ketones''),
      ''value'' \<mapsto> JStr [],
      ''matched_marker'' \<mapsto> JStr [],
      ''gender_used'' \<mapsto> JStr (js ''male''),
      ''min'' \<mapsto> JStr (js ''1''),
      ''max'' \<mapsto> JStr (js ''2''),
      ''severity'' \<mapsto> JStr (js ''3'')]"

subsection \<open>Names, paths and sheets\<close>

text \<open>
  The canonical names of the table whose lower-cased form is not itself a key (used to
  check the table).
\<close>

definition canonical_only :: "string list" where
  "canonical_only =
     [''White Blood Cell Count'', ''Red Blood Cell Count'', ''Hemoglobin'', ''Hematocrit'',
      ''Platelet Count'', ''Mean Corpuscular Volume'', ''Mean Corpuscular Hemoglobin'',
      ''Mean Corpuscular Hemoglobin Concentration'', ''Red Cell Distribution Width'',
      ''Blood Urea Nitrogen'', ''Creatinine'', ''Sodium'', ''Potassium'', ''Chloride'',
      ''Carbon Dioxide'', ''Total Cholesterol'', ''HDL Cholesterol'', ''LDL Cholesterol'',
      ''Alanine Aminotransferase'', ''Aspartate Aminotransferase'', ''Alkaline Phosphatase'',
      ''Total Bilirubin'', ''Thyroid Stimulating Hormone'', ''Thyroxine'', ''Triiodothyronine'',
      ''Creatine Kinase'', ''Creatine Kinase-MB'', ''C-Reactive Protein'',
      ''Erythrocyte Sedimentation Rate'', ''Hemoglobin A1c'']"

definition dataset_path :: jsstring where
  "dataset_path = js ''/srv/app/All_Descriptions_Completed.xlsx''"

text \<open>
  Two sheets of one row each. In the first the gender cell is \<open>male","x\<close> and the
  minimum is \<open>1\<close>; in the second the gender is \<open>male\<close> and the minimum is \<open>x","1\<close>.
\<close>

definition sheet_a :: "sheet_row list" where
  "sheet_a =
     [[''Blood Test Marker'' \<mapsto> js ''Ferritin'',
       ''Gender'' \<mapsto> js ''male'' @ [34, 44, 34] @ js ''x'',
       ''Minimum'' \<mapsto> js ''1'',
       ''Maximum'' \<mapsto> js ''2'',
       ''Severity Score (1 = mild, 5 = highly significant)'' \<mapsto> js ''3'']]"

definition sheet_b :: "sheet_row list" where
  "sheet_b =
     [[''Blood Test Marker'' \<mapsto> js ''Ferritin'',
       ''Gender'' \<mapsto> js ''male'',
       ''Minimum'' \<mapsto> js ''x'' @ [34, 44, 34] @ js ''1'',
       ''Maximum'' \<mapsto> js ''2'',
       ''Severity Score (1 = mild, 5 = highly significant)'' \<mapsto> js ''3'']]"

text \<open>
  A sheet with a padded marker, a blank marker beside other data, a lower-case header,
  and a gender written with U+00C4.
\<close>

definition sheet_c :: "sheet_row list" where
  "sheet_c =
     [[''Blood Test Marker'' \<mapsto> js '' Glucose '', ''Gender'' \<mapsto> js '' Male'', ''Minimum'' \<mapsto> js ''70'',
       ''Maximum'' \<mapsto> js ''99''],
      [''Blood Test Marker'' \<mapsto> js ''   '', ''Gender'' \<mapsto> js ''female'', ''Minimum'' \<mapsto> js ''1''],
      [''blood test marker'' \<mapsto> js ''TSH'', ''gender'' \<mapsto> js ''BOTH'',
       ''severity score (1 = mild, 5 = highly significant)'' \<mapsto> js ''4''],
      [''Blood Test Marker'' \<mapsto> js ''Hb'', ''Gender'' \<mapsto> js ''M'' @ [196] @ js ''NNLICH '']]"

text \<open>The raw rows of a sheet whose first row has a blank marker.\<close>

definition raw_sheet :: "jsobject list" where
  "raw_sheet =
     [[''Blood Test Marker'' \<mapsto> JStr (js ''   ''), ''Gender'' \<mapsto> JStr (js '' Male''),
       ''Minimum'' \<mapsto> JNum (Fin 1), ''Maximum'' \<mapsto> JNull,
       ''Severity Score (1 = mild, 5 = highly significant)'' \<mapsto> JNull],
      [''Blood Test Marker'' \<mapsto> JStr (js ''Glucose''), ''Gender'' \<mapsto> JStr (js ''both''),
       ''Minimum'' \<mapsto> JNum (Fin 70), ''Maximum'' \<mapsto> JNum (Fin 99),
       ''Severity Score (1 = mild, 5 = highly significant)'' \<mapsto> JNum (Fin 2)]]"

section \<open>Properties of the number model\<close>

lemmas number_eval = parseFloat_str_def unsigned_literal_def exponent_part_def decimal_value_def
  binary64_def shift_down.simps shift_up.simps scale2_def round_half_even_def negate_def Let_def
  isNaN_def

lemma binary64_not_NaN: "binary64 n d \<noteq> NaN"
  by (simp add: binary64_def split: prod.splits)

lemma decimal_value_not_NaN: "decimal_value m x \<noteq> NaN"
  by (simp add: decimal_value_def binary64_not_NaN)

text \<open>Scaling up only doubles the numerator and lowers the exponent by one each time.\<close>

lemma shift_up_result:
  "shift_up n d e = (n', d', e') \<Longrightarrow> d' = d \<and> e' \<le> e \<and> n' = n * 2 ^ nat (e - e')"
proof (induction n d e rule: shift_up.induct)
  case (1 n d e)
  show ?case
  proof (cases "n < 2 ^ 52 * d \<and> - 1074 < e")
    case True
    have "shift_up n d e = shift_up (2 * n) d (e - 1)"
      using True by (subst shift_up.simps) simp
    then have "shift_up (2 * n) d (e - 1) = (n', d', e')"
      using "1.prems" by simp
    then have ih: "d' = d \<and> e' \<le> e - 1 \<and> n' = 2 * n * 2 ^ nat (e - 1 - e')"
      using "1.IH" True by simp
    then have "nat (e - e') = Suc (nat (e - 1 - e'))"
      by linarith
    then show ?thesis using ih by simp
  next
    case False
    have "shift_up n d e = (n, d, e)"
      using False by (subst shift_up.simps) auto
    then show ?thesis
      using "1.prems" by simp
  qed
qed

text \<open>A positive integer below \<open>2^53\<close> is its own Number value.\<close>

lemma binary64_small_integer:
  assumes "0 < n" and "n < 2 ^ 53"
  shows "binary64 n 1 = Fin (of_nat n)"
proof -
  have big: "(2::nat) ^ 53 \<le> 2 ^ 1024 - 2 ^ 970"
    by simp
  then have no: "\<not> (2 ^ 1024 - 2 ^ 970) * 1 \<le> n"
    using assms(2) by linarith
  have down: "shift_down n 1 0 = (n, 1, 0)"
    using assms(2) by (subst shift_down.simps) simp
  obtain n' d' e' where up: "shift_up n 1 0 = (n', d', e')"
    by (cases "shift_up n 1 0") auto
  then have r: "d' = 1" "e' \<le> 0" "n' = n * 2 ^ nat (- e')"
    using shift_up_result [OF up] by simp_all
  have "round_half_even n' 1 = n'"
    by (simp add: round_half_even_def)
  then have "binary64 n 1 = Fin (scale2 (of_nat n') e')"
    using assms(1) no down up r(1) by (simp add: binary64_def)
  also have "scale2 (of_nat n') e' = of_nat n"
  proof (cases "e' = 0")
    case True
    then show ?thesis using r(3) by (simp add: scale2_def)
  next
    case False
    then have "e' < 0" using r(2) by simp
    then show ?thesis using r(3) by (simp add: scale2_def)
  qed
  finally show ?thesis .
qed

text \<open>
  Rounding and overflow at work: \<open>2^53 + 1\<close> lies half way between two binary64 values
  and goes to the even one, one tenth is not a binary64 value, and \<open>10^309\<close> is beyond
  the largest.
\<close>

lemma binary64_rounds:
  "binary64 9007199254740993 1 = Fin 9007199254740992"
  "binary64 9007199254740995 1 = Fin 9007199254740996"
  "binary64 1 10 = Fin (3602879701896397 / 2 ^ 55)"
  "binary64 (10 ^ 309) 1 = PosInf"
  by (simp_all add: number_eval)

section \<open>Properties of the reconciler\<close>

lemma reconcile_entry_fold:
  "foldl reconcile_entry (ev, un) es =
     (ev @ filter isValidMatch es,
      un @ map unmatched_record (filter (\<lambda>e. \<not> isValidMatch e) es))"
  by (induction es arbitrary: ev un) (simp_all add: reconcile_entry_def)

lemma reconcile_eq:
  "reconcile mo =
     (filter isValidMatch (allEntries mo),
      map unmatched_record (filter (\<lambda>e. \<not> isValidMatch e) (allEntries mo)))"
  by (simp add: reconcile_def reconcile_entry_fold)

lemma glucose_valid: "isValidMatch glucose"
  by (simp add: isValidMatch_def field_def glucose_def js_def)

lemma exotic_invalid: "\<not> isValidMatch exotic"
  by (simp add: isValidMatch_def field_def exotic_def)

lemma blank_value_invalid: "\<not> isValidMatch blank_value"
  by (simp add: isValidMatch_def field_def blank_value_def)

subsection \<open>The validity gate\<close>

lemma zinc_valid: "isValidMatch zinc"
  by (simp add: isValidMatch_def field_def zinc_def)

text \<open>
  The gate as it is coded. The pool is the proposer's \<open>evaluated\<close> list followed by its
  \<open>unmatched\<close> list; a candidate goes to \<open>evaluated\<close> exactly when the property read of
  \<open>matched_marker\<close> is neither \<open>null\<close> nor the empty string and one of the reads of
  \<open>min\<close>, \<open>max\<close>, \<open>severity\<close> is not \<open>null\<close>, under the strict \<open>!==\<close>; every other
  candidate goes, as its nulled record, to \<open>unmatched\<close>. The read of a missing property
  is \<open>undefined\<close>, which is not \<open>null\<close>.
\<close>

lemma reconcile_strict_gate:
  "reconcile \<lparr>mo_evaluated = Some es, mo_unmatched = Some us\<rparr> =
     (filter (\<lambda>e. field e ''matched_marker'' \<noteq> JNull \<and> field e ''matched_marker'' \<noteq> JStr [] \<and>
                 (field e ''min'' \<noteq> JNull \<or> field e ''max'' \<noteq> JNull \<or>
                  field e ''severity'' \<noteq> JNull)) (es @ us),
      map unmatched_record
        (filter (\<lambda>e. \<not> (field e ''matched_marker'' \<noteq> JNull \<and> field e ''matched_marker'' \<noteq> JStr [] \<and>
                 (field e ''min'' \<noteq> JNull \<or> field e ''max'' \<noteq> JNull \<or>
                  field e ''severity'' \<noteq> JNull))) (es @ us)))"
proof -
  have gate: "isValidMatch = (\<lambda>e. field e ''matched_marker'' \<noteq> JNull \<and> field e ''matched_marker'' \<noteq> JStr [] \<and>
                 (field e ''min'' \<noteq> JNull \<or> field e ''max'' \<noteq> JNull \<or>
                  field e ''severity'' \<noteq> JNull))"
    by (rule ext) (simp add: isValidMatch_def)
  have "allEntries \<lparr>mo_evaluated = Some es, mo_unmatched = Some us\<rparr> = es @ us"
    by (simp add: allEntries_def)
  then show ?thesis
    unfolding reconcile_eq gate by simp
qed

text \<open>
  C1 at a candidate that has no match fields at all. The candidate \<open>{name: "Zinc"}\<close>
  has no \<open>matched_marker\<close> and none of \<open>min\<close>, \<open>max\<close>, \<open>severity\<close>, and the proposer
  put it in its \<open>unmatched\<close> list. The gate of the specification sends it to
  \<open>unmatched\<close>; the code compares each missing field with \<open>!== null\<close>, takes
  \<open>undefined\<close> for a value, and places the candidate in \<open>evaluated\<close>.
\<close>

theorem candidate_without_marker_evaluated:
  "zinc ''matched_marker'' = None \<and> zinc ''min'' = None \<and> zinc ''max'' = None \<and>
   zinc ''severity'' = None \<and>
   isValidMatch zinc \<and>
   reconcile \<lparr>mo_evaluated = Some [], mo_unmatched = Some [zinc]\<rparr> = ([zinc], [])"
proof -
  have absent: "zinc ''matched_marker'' = None \<and> zinc ''min'' = None \<and> zinc ''max'' = None \<and>
      zinc ''severity'' = None"
    by (simp add: zinc_def)
  have "reconcile \<lparr>mo_evaluated = Some [], mo_unmatched = Some [zinc]\<rparr> = ([zinc], [])"
    using zinc_valid by (simp add: reconcile_eq allEntries_def)
  then show ?thesis
    using absent zinc_valid by simp
qed

theorem candidate_without_marker_evaluated_witness:
  "field zinc ''matched_marker'' = JUndefined \<and> field zinc ''min'' = JUndefined \<and>
   JUndefined \<noteq> JNull \<and>
   zinc \<in> set (fst (reconcile \<lparr>mo_evaluated = Some [], mo_unmatched = Some [zinc]\<rparr>)) \<and>
   snd (reconcile \<lparr>mo_evaluated = Some [], mo_unmatched = Some [zinc]\<rparr>) = []"
  using candidate_without_marker_evaluated by (simp add: field_def)

subsection \<open>The partition\<close>

text \<open>
  C10. The reconciler partitions the pooled candidates: the valid ones, unchanged and
  in pool order, are \<open>evaluated\<close>; the others, each replaced by its nulled record and in
  pool order, are \<open>unmatched\<close>. So every candidate lands in exactly one output, the two
  lengths add up to the length of the pool, and each output keeps the pool's relative order.
\<close>

theorem reconcile_partition:
  "fst (reconcile mo) = filter isValidMatch (allEntries mo) \<and>
   snd (reconcile mo) = map unmatched_record (filter (\<lambda>e. \<not> isValidMatch e) (allEntries mo)) \<and>
   length (fst (reconcile mo)) + length (snd (reconcile mo)) = length (allEntries mo) \<and>
   subseq (fst (reconcile mo)) (allEntries mo) \<and>
   (\<exists>kept. subseq kept (allEntries mo) \<and> snd (reconcile mo) = map unmatched_record kept)"
proof -
  let ?pool = "allEntries mo"
  have len: "length (filter isValidMatch ?pool) + length (filter (\<lambda>e. \<not> isValidMatch e) ?pool)
      = length ?pool"
    by (rule sum_length_filter_compl)
  have sub: "subseq (filter (\<lambda>e. \<not> isValidMatch e) ?pool) ?pool"
    by (rule subseq_filter_left)
  then have ex: "\<exists>kept. subseq kept ?pool \<and>
      map unmatched_record (filter (\<lambda>e. \<not> isValidMatch e) ?pool) = map unmatched_record kept"
    by blast
  show ?thesis
    unfolding reconcile_eq using len ex by simp
qed

theorem reconcile_partition_witness:
  "fst (reconcile \<lparr>mo_evaluated = Some [exotic, glucose], mo_unmatched = Some [blank_value]\<rparr>) = [glucose] \<and>
   snd (reconcile \<lparr>mo_evaluated = Some [exotic, glucose], mo_unmatched = Some [blank_value]\<rparr>) =
     [unmatched_record exotic, unmatched_record blank_value]"
  using reconcile_partition [of "\<lparr>mo_evaluated = Some [exotic, glucose], mo_unmatched = Some [blank_value]\<rparr>"]
    glucose_valid exotic_invalid blank_value_invalid
  by (simp add: allEntries_def)

subsection \<open>The nulled record\<close>







subsection \<open>The range flag\<close>

text \<open>
  C2 at the claim's own example. The loop body computes \<open>isWithinRange = false\<close> for the
  Glucose candidate (105 > 99), but what it pushes is \<open>{...entry}\<close>: the record in
  \<open>evaluated\<close> is the candidate itself, and reading \<open>isWithinRange\<close> from it gives
  \<open>undefined\<close>, not \<open>false\<close>.
\<close>

theorem glucose_not_annotated:
  "reconcile \<lparr>mo_evaluated = Some [glucose], mo_unmatched = Some []\<rparr> = ([glucose], []) \<and>
   field (hd (fst (reconcile \<lparr>mo_evaluated = Some [glucose], mo_unmatched = Some []\<rparr>))) ''isWithinRange''
     = JUndefined \<and>
   isWithinRange glucose = JBool False"
proof -
  have r: "reconcile \<lparr>mo_evaluated = Some [glucose], mo_unmatched = Some []\<rparr> = ([glucose], [])"
    using glucose_valid by (simp add: reconcile_eq allEntries_def)
  have f: "field glucose ''isWithinRange'' = JUndefined"
    by (simp add: field_def glucose_def)
  have w: "isWithinRange glucose = JBool False"
    by (simp add: isWithinRange_def glucose_def field_def js_def is_space_def is_digit_def
        number_eval num_ge_def)
  show ?thesis using r f w by simp
qed

section \<open>Properties of the numeric value\<close>

lemmas js_chars = js_def is_digit_def is_space_def is_letter_def is_word_def



lemma digit_not_space: "is_digit c \<Longrightarrow> \<not> is_space c"
  by (auto simp: is_digit_def is_space_def)

lemma digits_split:
  assumes "\<forall>c \<in> set ip. is_digit c" and "rest = [] \<or> \<not> is_digit (hd rest)"
  shows "takeWhile is_digit (ip @ rest) = ip" and "dropWhile is_digit (ip @ rest) = rest"
proof -
  have r: "takeWhile is_digit rest = []" "dropWhile is_digit rest = rest"
    using assms(2) by (cases rest; simp)+
  show "takeWhile is_digit (ip @ rest) = ip"
    using assms(1) r by (simp add: takeWhile_append2)
  show "dropWhile is_digit (ip @ rest) = rest"
    using assms(1) r by (simp add: dropWhile_append2)
qed

lemma unsigned_literal_digits:
  assumes "ip \<noteq> []" and "\<forall>c \<in> set ip. is_digit c"
  shows "unsigned_literal ip = binary64 (digits_value 0 ip) 1"
proof -
  obtain c cs where ip: "ip = c # cs" using assms(1) by (cases ip) auto
  have "is_digit c" using assms(2) ip by simp
  then have "c \<noteq> 73" by (simp add: is_digit_def)
  then have inf: "take 8 ip \<noteq> js ''Infinity''" using ip by (auto simp: js_def)
  have tw: "takeWhile is_digit ip = ip" "dropWhile is_digit ip = []"
    using assms(2) by simp_all
  show ?thesis
    using inf assms(1) by (simp add: unsigned_literal_def Let_def tw exponent_part_def decimal_value_def)
qed

lemma unsigned_literal_fraction:
  assumes "ip \<noteq> []" and "\<forall>c \<in> set ip. is_digit c" and "\<forall>c \<in> set fp. is_digit c"
  shows "unsigned_literal (ip @ 46 # fp) = binary64 (digits_value 0 (ip @ fp)) (10 ^ length fp)"
proof -
  obtain c cs where ip: "ip = c # cs" using assms(1) by (cases ip) auto
  have "is_digit c" using assms(2) ip by simp
  then have "c \<noteq> 73" by (simp add: is_digit_def)
  then have inf: "take 8 (ip @ 46 # fp) \<noteq> js ''Infinity''" using ip by (auto simp: js_def)
  have nd: "\<not> is_digit 46" by (simp add: is_digit_def)
  have tw: "takeWhile is_digit (ip @ 46 # fp) = ip" "dropWhile is_digit (ip @ 46 # fp) = 46 # fp"
    using digits_split [of ip "46 # fp"] assms(2) nd by simp_all
  have tf: "takeWhile is_digit fp = fp" "dropWhile is_digit fp = []"
    using assms(3) by simp_all
    have x: "decimal_value m (- int (length fp)) = binary64 m (10 ^ length fp)" for m
    by (cases "fp = []") (simp_all add: decimal_value_def)
  show ?thesis
    using inf assms(1)
    by (simp add: unsigned_literal_def Let_def tw tf exponent_part_def x)
qed

lemma parseFloat_str_digit_head:
  assumes "is_digit c"
  shows "parseFloat_str (c # cs) = unsigned_literal (c # cs)"
proof -
  have "\<not> is_space c" using assms by (rule digit_not_space)
  moreover have "c \<noteq> 45" "c \<noteq> 43" using assms by (simp_all add: is_digit_def)
  ultimately show ?thesis by (simp add: parseFloat_str_def)
qed

lemma numericMatch_none:
  "s = [] \<or> \<not> is_digit (hd s) \<Longrightarrow> numericMatch s = None"
  by (cases s) (auto simp: numericMatch_def)

lemma numericMatch_integer:
  assumes "ip \<noteq> []" and "\<forall>c \<in> set ip. is_digit c"
    and "rest = [] \<or> (\<not> is_digit (hd rest) \<and> hd rest \<noteq> 46)"
  shows "numericMatch (ip @ rest) = Some ip"
proof -
  have "rest = [] \<or> \<not> is_digit (hd rest)" using assms(3) by blast
  then have "takeWhile is_digit (ip @ rest) = ip" "dropWhile is_digit (ip @ rest) = rest"
    using digits_split [of ip rest] assms(2) by simp_all
  then show ?thesis
    using assms(1,3) by (auto simp: numericMatch_def)
qed

lemma numericMatch_fraction:
  assumes "ip \<noteq> []" and "\<forall>c \<in> set ip. is_digit c" and "\<forall>c \<in> set fp. is_digit c"
    and "rest = [] \<or> \<not> is_digit (hd rest)"
  shows "numericMatch (ip @ 46 # fp @ rest) = Some (ip @ 46 # fp)"
proof -
  have nd: "\<not> is_digit 46" by (simp add: is_digit_def)
  have "takeWhile is_digit (ip @ 46 # fp @ rest) = ip"
       "dropWhile is_digit (ip @ 46 # fp @ rest) = 46 # fp @ rest"
    using digits_split [of ip "46 # fp @ rest"] assms(2) nd by simp_all
  moreover have "takeWhile is_digit (fp @ rest) = fp"
    using digits_split [of fp rest] assms(3,4) by simp
  ultimately show ?thesis
    using assms(1) by (simp add: numericMatch_def)
qed

lemma parseFloat_str_digits:
  assumes "ip \<noteq> []" and "\<forall>c \<in> set ip. is_digit c"
  shows "parseFloat_str ip = binary64 (digits_value 0 ip) 1"
proof -
  obtain c cs where ip: "ip = c # cs" using assms(1) by (cases ip) auto
  then have "is_digit c" using assms(2) by simp
  then show ?thesis
    using parseFloat_str_digit_head [of c cs] unsigned_literal_digits [OF assms] ip by simp
qed

lemma parseFloat_str_fraction:
  assumes "ip \<noteq> []" and "\<forall>c \<in> set ip. is_digit c" and "\<forall>c \<in> set fp. is_digit c"
  shows "parseFloat_str (ip @ 46 # fp) = binary64 (digits_value 0 (ip @ fp)) (10 ^ length fp)"
proof -
  obtain c cs where ip: "ip = c # cs" using assms(1) by (cases ip) auto
  then have "is_digit c" using assms(2) by simp
  then show ?thesis
    using parseFloat_str_digit_head [of c "cs @ 46 # fp"] unsigned_literal_fraction [OF assms] ip
    by simp
qed

lemma parseNumeric_clean:
  "parseNumeric (JStr s) =
     (case numericMatch (trim (filter (\<lambda>c. c \<notin> {60, 62, 8804, 8805}) s)) of
        None \<Rightarrow> Inr JNull
      | Some m \<Rightarrow> if parseFloat_str m = NaN then Inr JNull else Inr (JNum (parseFloat_str m)))"
proof (cases "s = []")
  case True
  then show ?thesis
    by (simp add: parseNumeric_def strip_operators_def trim_def numericMatch_def)
next
  case False
  then show ?thesis
    by (simp add: parseNumeric_def strip_operators_def Let_def isNaN_def split: option.splits)
qed


lemma digits_value_zeros: "digits_value acc (replicate n 48) = acc * 10 ^ n"
  by (induction n arbitrary: acc) simp_all

lemma one_and_zeros:
  "digits_value 0 (49 # replicate n 48) = 10 ^ n"
  by (simp add: digits_value_zeros)

lemma parseNumeric_example:
  "numericMatch (trim (filter (\<lambda>c. c \<notin> {60, 62, 8804, 8805}) s)) = Some m \<Longrightarrow>
   parseFloat_str m = Fin q \<Longrightarrow> parseNumeric (JStr s) = Inr (JNum (Fin q))"
  by (simp add: parseNumeric_clean)

lemmas numeric_eval = parseNumeric_def strip_operators_def trim_def numericMatch_def
  js_chars number_eval

text \<open>
  C4. For every string value the block returns and does not throw. With the operator
  glyphs \<open><\<close>, \<open>>\<close>, U+2264, U+2265 removed and the rest trimmed: when the
  remainder is empty or does not start with a digit the result is \<open>null\<close>; when it
  starts with a run of digits not followed by a dot the result is the Number value of
  the integer these digits denote, which is that integer itself below \<open>2^53\<close>; when the
  run is followed by a dot and a (possibly empty) run of digits the result is the Number
  value of the decimal fraction. The Number value is the nearest binary64 value, so the
  digits \<open>9007199254740993\<close> give 9007199254740992, and a run of 310 digits gives
  \<open>Infinity\<close>, which the guard \<open>!isNaN\<close> lets through. In particular \<open>"<0.5"\<close>
  gives 0.5, \<open>"NONE SEEN"\<close> gives \<open>null\<close>, \<open>"14.5"\<close> gives 14.5 and \<open>">100"\<close>
  gives 100; U+2264 and U+2265 are removed wherever they stand, and the white space
  that is trimmed includes the tab and the no-break space.
\<close>

theorem parseNumeric_string:
  "(\<exists>r. parseNumeric (JStr s) = Inr r) \<and>
   (trim (filter (\<lambda>c. c \<notin> {60, 62, 8804, 8805}) s) = [] \<or>
    \<not> is_digit (hd (trim (filter (\<lambda>c. c \<notin> {60, 62, 8804, 8805}) s)))
      \<longrightarrow> parseNumeric (JStr s) = Inr JNull) \<and>
   (\<forall>ip rest. trim (filter (\<lambda>c. c \<notin> {60, 62, 8804, 8805}) s) = ip @ rest \<and> ip \<noteq> [] \<and>
        (\<forall>c \<in> set ip. is_digit c) \<and> (rest = [] \<or> (\<not> is_digit (hd rest) \<and> hd rest \<noteq> 46))
      \<longrightarrow> parseNumeric (JStr s) = Inr (JNum (binary64 (digits_value 0 ip) 1)) \<and>
          (digits_value 0 ip < 2 ^ 53
             \<longrightarrow> parseNumeric (JStr s) = Inr (JNum (Fin (of_nat (digits_value 0 ip)))))) \<and>
   (\<forall>ip fp rest. trim (filter (\<lambda>c. c \<notin> {60, 62, 8804, 8805}) s) = ip @ 46 # fp @ rest \<and> ip \<noteq> [] \<and>
        (\<forall>c \<in> set ip. is_digit c) \<and> (\<forall>c \<in> set fp. is_digit c) \<and>
        (rest = [] \<or> \<not> is_digit (hd rest))
      \<longrightarrow> parseNumeric (JStr s) =
            Inr (JNum (binary64 (digits_value 0 (ip @ fp)) (10 ^ length fp)))) \<and>
   parseNumeric (JStr (js ''<0.5'')) = Inr (JNum (Fin (1 / 2))) \<and>
   parseNumeric (JStr (js ''NONE SEEN'')) = Inr JNull \<and>
   parseNumeric (JStr (js ''14.5'')) = Inr (JNum (Fin (29 / 2))) \<and>
   parseNumeric (JStr (js ''>100'')) = Inr (JNum (Fin 100)) \<and>
   parseNumeric (JStr ([8804] @ js ''5'')) = Inr (JNum (Fin 5)) \<and>
   parseNumeric (JStr (js ''1'' @ [8805] @ js ''2<.>5'')) = Inr (JNum (Fin (25 / 2))) \<and>
   parseNumeric (JStr ([9, 160, 62] @ js ''7 mg'' @ [10])) = Inr (JNum (Fin 7)) \<and>
   parseNumeric (JStr (js ''12.'')) = Inr (JNum (Fin 12)) \<and>
   parseNumeric (JStr (js ''.5'')) = Inr JNull \<and>
   parseNumeric (JStr (js ''-5'')) = Inr JNull \<and>
   parseNumeric (JStr (js ''0.1'')) = Inr (JNum (Fin (3602879701896397 / 36028797018963968))) \<and>
   parseNumeric (JStr (js ''9007199254740993'')) = Inr (JNum (Fin 9007199254740992)) \<and>
   parseNumeric (JStr (49 # replicate 309 48)) = Inr (JNum PosInf)"
proof -
  let ?c = "trim (filter (\<lambda>c. c \<notin> {60, 62, 8804, 8805}) s)"
  have total: "\<exists>r. parseNumeric (JStr s) = Inr r"
    by (simp add: parseNumeric_clean split: option.splits)
  have none: "?c = [] \<or> \<not> is_digit (hd ?c) \<longrightarrow> parseNumeric (JStr s) = Inr JNull"
    using numericMatch_none [of ?c] by (auto simp: parseNumeric_clean)
  have int: "\<forall>ip rest. ?c = ip @ rest \<and> ip \<noteq> [] \<and> (\<forall>c \<in> set ip. is_digit c) \<and>
        (rest = [] \<or> (\<not> is_digit (hd rest) \<and> hd rest \<noteq> 46))
      \<longrightarrow> parseNumeric (JStr s) = Inr (JNum (binary64 (digits_value 0 ip) 1)) \<and>
          (digits_value 0 ip < 2 ^ 53
             \<longrightarrow> parseNumeric (JStr s) = Inr (JNum (Fin (of_nat (digits_value 0 ip)))))"
  proof (intro allI impI)
    fix ip rest
    assume h: "?c = ip @ rest \<and> ip \<noteq> [] \<and> (\<forall>c \<in> set ip. is_digit c) \<and>
        (rest = [] \<or> (\<not> is_digit (hd rest) \<and> hd rest \<noteq> 46))"
    then have m: "numericMatch ?c = Some ip"
      using numericMatch_integer [of ip rest] by simp
    have p: "parseFloat_str ip = binary64 (digits_value 0 ip) 1"
      using h parseFloat_str_digits [of ip] by simp
    have nn: "binary64 (digits_value 0 ip) 1 \<noteq> NaN"
      by (rule binary64_not_NaN)
    have r: "parseNumeric (JStr s) = Inr (JNum (binary64 (digits_value 0 ip) 1))"
      using m p nn by (simp add: parseNumeric_clean)
    have "digits_value 0 ip < 2 ^ 53 \<Longrightarrow> binary64 (digits_value 0 ip) 1 = Fin (of_nat (digits_value 0 ip))"
    proof (cases "digits_value 0 ip = 0")
      case True
      then show ?thesis by (simp add: binary64_def)
    next
      case False
      assume "digits_value 0 ip < 2 ^ 53"
      then show ?thesis using False binary64_small_integer [of "digits_value 0 ip"] by simp
    qed
    then show "parseNumeric (JStr s) = Inr (JNum (binary64 (digits_value 0 ip) 1)) \<and>
          (digits_value 0 ip < 2 ^ 53
             \<longrightarrow> parseNumeric (JStr s) = Inr (JNum (Fin (of_nat (digits_value 0 ip)))))"
      using r by simp
  qed
  have frac: "\<forall>ip fp rest. ?c = ip @ 46 # fp @ rest \<and> ip \<noteq> [] \<and>
        (\<forall>c \<in> set ip. is_digit c) \<and> (\<forall>c \<in> set fp. is_digit c) \<and>
        (rest = [] \<or> \<not> is_digit (hd rest))
      \<longrightarrow> parseNumeric (JStr s) =
            Inr (JNum (binary64 (digits_value 0 (ip @ fp)) (10 ^ length fp)))"
  proof (intro allI impI)
    fix ip fp rest
    assume h: "?c = ip @ 46 # fp @ rest \<and> ip \<noteq> [] \<and>
        (\<forall>c \<in> set ip. is_digit c) \<and> (\<forall>c \<in> set fp. is_digit c) \<and>
        (rest = [] \<or> \<not> is_digit (hd rest))"
    then have m: "numericMatch ?c = Some (ip @ 46 # fp)"
      using numericMatch_fraction [of ip fp rest] by simp
    have p: "parseFloat_str (ip @ 46 # fp) = binary64 (digits_value 0 (ip @ fp)) (10 ^ length fp)"
      using h parseFloat_str_fraction [of ip fp] by simp
    have nn: "binary64 (digits_value 0 (ip @ fp)) (10 ^ length fp) \<noteq> NaN"
      by (rule binary64_not_NaN)
    show "parseNumeric (JStr s) =
            Inr (JNum (binary64 (digits_value 0 (ip @ fp)) (10 ^ length fp)))"
      using m p nn by (simp add: parseNumeric_clean)
  qed
  have e1: "parseNumeric (JStr (js ''<0.5'')) = Inr (JNum (Fin (1 / 2)))"
    by (simp add: numeric_eval)
  have e2: "parseNumeric (JStr (js ''NONE SEEN'')) = Inr JNull"
    by (simp add: numeric_eval)
  have e3: "parseNumeric (JStr (js ''14.5'')) = Inr (JNum (Fin (29 / 2)))"
    by (simp add: numeric_eval)
  have e4: "parseNumeric (JStr (js ''>100'')) = Inr (JNum (Fin 100))"
    by (simp add: numeric_eval)
  have e5: "parseNumeric (JStr ([8804] @ js ''5'')) = Inr (JNum (Fin 5))"
    by (simp add: numeric_eval)
  have e6: "parseNumeric (JStr (js ''1'' @ [8805] @ js ''2<.>5'')) = Inr (JNum (Fin (25 / 2)))"
    by (simp add: numeric_eval)
  have e7: "parseNumeric (JStr ([9, 160, 62] @ js ''7 mg'' @ [10])) = Inr (JNum (Fin 7))"
    by (simp add: numeric_eval)
  have e8: "parseNumeric (JStr (js ''12.'')) = Inr (JNum (Fin 12))"
    by (simp add: numeric_eval)
  have e9: "parseNumeric (JStr (js ''.5'')) = Inr JNull"
    by (simp add: numeric_eval)
  have e10: "parseNumeric (JStr (js ''-5'')) = Inr JNull"
    by (simp add: numeric_eval)
  have e11: "parseNumeric (JStr (js ''0.1'')) = Inr (JNum (Fin (3602879701896397 / 36028797018963968)))"
    by (simp add: numeric_eval)
  have e12: "parseNumeric (JStr (js ''9007199254740993'')) = Inr (JNum (Fin 9007199254740992))"
    by (simp add: numeric_eval)
  have e13: "parseNumeric (JStr (49 # replicate 309 48)) = Inr (JNum PosInf)"
  proof -
    let ?s = "49 # replicate 309 (48 :: nat)"
    have d: "\<forall>c \<in> set ?s. is_digit c" by (simp add: is_digit_def)
    have ns: "\<forall>c \<in> set ?s. \<not> is_space c" by (simp add: is_space_def)
    have f: "filter (\<lambda>c. c \<notin> {60, 62, 8804, 8805}) ?s = ?s"
      by (rule filter_True) simp
    have lt: "last ?s = 48" by simp
    have t: "trim ?s = ?s"
      using ns by (simp add: trim_def is_space_def)
    have m: "numericMatch ?s = Some ?s"
      using numericMatch_integer [of ?s "[]"] d by simp
    have p: "parseFloat_str ?s = binary64 (10 ^ 309) 1"
      using parseFloat_str_digits [of ?s] d one_and_zeros [of 309] by simp
    have "binary64 (10 ^ 309) 1 = PosInf"
      by (simp add: binary64_def)
    then show ?thesis
      using m p by (simp add: parseNumeric_clean f t del: replicate.simps)
  qed
  show ?thesis
    using total none int frac e1 e2 e3 e4 e5 e6 e7 e8 e9 e10 e11 e12 e13 by blast
qed

theorem parseNumeric_string_witness:
  "trim (filter (\<lambda>c. c \<notin> {60, 62, 8804, 8805}) ([8805, 32] @ js ''12.50 mg/dL'')) =
     js ''12'' @ 46 # js ''50'' @ js '' mg/dL'' \<and>
   parseNumeric (JStr ([8805, 32] @ js ''12.50 mg/dL'')) = Inr (JNum (Fin (25 / 2))) \<and>
   trim (filter (\<lambda>c. c \<notin> {60, 62, 8804, 8805}) (js ''> 9007199254740991 cells'')) =
     js ''9007199254740991'' @ js '' cells'' \<and>
   parseNumeric (JStr (js ''> 9007199254740991 cells'')) = Inr (JNum (Fin 9007199254740991)) \<and>
   trim (filter (\<lambda>c. c \<notin> {60, 62, 8804, 8805}) (js '' <> '')) = [] \<and>
   parseNumeric (JStr (js '' <> '')) = Inr JNull"
proof -
  have c: "trim (filter (\<lambda>c. c \<notin> {60, 62, 8804, 8805}) ([8805, 32] @ js ''12.50 mg/dL'')) =
      js ''12'' @ 46 # js ''50'' @ js '' mg/dL''"
    by (simp add: trim_def js_chars)
  have d: "js ''12'' \<noteq> []" "\<forall>c \<in> set (js ''12''). is_digit c" "\<forall>c \<in> set (js ''50''). is_digit c"
     "js '' mg/dL'' = [] \<or> \<not> is_digit (hd (js '' mg/dL''))"
    by (simp_all add: js_chars)
  have v: "binary64 (digits_value 0 (js ''12'' @ js ''50'')) (10 ^ length (js ''50'')) = Fin (25 / 2)"
    by (simp add: js_def number_eval)
  have a: "parseNumeric (JStr ([8805, 32] @ js ''12.50 mg/dL'')) = Inr (JNum (Fin (25 / 2)))"
    using parseNumeric_string [of "[8805, 32] @ js ''12.50 mg/dL''"] c d v
    by (metis (no_types, lifting))
  have c2: "trim (filter (\<lambda>c. c \<notin> {60, 62, 8804, 8805}) (js ''> 9007199254740991 cells'')) =
      js ''9007199254740991'' @ js '' cells''"
    by (simp add: trim_def js_chars)
  have d2: "js ''9007199254740991'' \<noteq> []" "\<forall>c \<in> set (js ''9007199254740991''). is_digit c"
     "js '' cells'' = [] \<or> (\<not> is_digit (hd (js '' cells'')) \<and> hd (js '' cells'') \<noteq> 46)"
    by (simp_all add: js_chars)
  have v2: "digits_value 0 (js ''9007199254740991'') = 9007199254740991"
    by (simp add: js_def)
  have lt: "(9007199254740991 :: nat) < 2 ^ 53" by simp
  have b: "parseNumeric (JStr (js ''> 9007199254740991 cells'')) = Inr (JNum (Fin 9007199254740991))"
    using parseNumeric_string [of "js ''> 9007199254740991 cells''"] c2 d2 v2 lt
    by (metis (no_types, lifting) of_nat_numeral)
  have c3: "trim (filter (\<lambda>c. c \<notin> {60, 62, 8804, 8805}) (js '' <> '')) = []"
    by (simp add: trim_def js_chars)
  have e: "parseNumeric (JStr (js '' <> '')) = Inr JNull"
    using parseNumeric_string [of "js '' <> ''"] c3 by simp
  show ?thesis using c a c2 b c3 e by simp
qed

text \<open>
  Inside \<open>postProcessBiomarkers\<close> the \<open>numericValue\<close> of a processed record is the
  result of this block on the biomarker's \<open>value\<close>.
\<close>

lemma postProcess_numericValue:
  assumes "postProcessBiomarker engine b = Inr r"
  shows "parseNumeric (field b ''value'') = Inr (field r ''numericValue'')"
  using assms
  by (auto simp: postProcessBiomarker_def Let_def field_def split: sum.splits)

section \<open>Properties of name standardization\<close>

lemmas string_eval = js_def trim_def toLowerCase_def plain_unit_def lower_unit_def is_space_def

text \<open>
  The keys of the table, the property names of \<open>Object.prototype\<close> and the lower-cased
  canonical names of \<open>canonical_only\<close> are pairwise different.
\<close>

lemma standardizations_distinct_all:
  "distinct (map fst standardizations @ map fst object_prototype @
     map (\<lambda>s. trim (toLowerCase engine (js s))) canonical_only)"
  by (simp add: standardizations_def object_prototype_def canonical_only_def string_eval)

lemma standardizations_keys_normal:
  "list_all (\<lambda>(k, v). trim (toLowerCase engine k) = k \<and> v \<noteq> []) standardizations"
  by (simp add: standardizations_def string_eval)

text \<open>
  Every canonical name, lower-cased and trimmed, is a key of its own entry or one of
  \<open>canonical_only\<close>.
\<close>

lemma standardizations_values_cover:
  "set (map (\<lambda>(k, v). (trim (toLowerCase engine v), v)) standardizations)
     \<subseteq> set standardizations \<union> set (map (\<lambda>s. (trim (toLowerCase engine (js s)), js s)) canonical_only)"
  by (simp add: standardizations_def canonical_only_def string_eval)

lemma standardize_hit:
  assumes "(k, v) \<in> set standardizations"
  shows "standardizeBiomarkerName engine (JStr k) = Inr (JStr v)"
proof -
  have n: "trim (toLowerCase engine k) = k" and v: "v \<noteq> []"
    using standardizations_keys_normal [of engine] assms by (auto simp: list_all_iff)
  have "distinct (map fst standardizations)"
    using standardizations_distinct_all [of engine] by simp
  then have "map_of standardizations k = Some v"
    using assms by (rule map_of_is_SomeI)
  then show ?thesis
    using n v by (simp add: standardizeBiomarkerName_def get_standardization_def js_or_def)
qed

lemma standardize_miss:
  assumes "trim (toLowerCase engine s) \<notin> set (map fst standardizations)"
    and "trim (toLowerCase engine s) \<notin> set (map fst object_prototype)"
  shows "standardizeBiomarkerName engine (JStr s) = Inr (JStr s)"
proof -
  have "map_of standardizations (trim (toLowerCase engine s)) = None"
       "map_of object_prototype (trim (toLowerCase engine s)) = None"
    using assms by (simp_all add: map_of_eq_None_iff)
  then show ?thesis
    by (simp add: standardizeBiomarkerName_def get_standardization_def js_or_def)
qed

lemma standardize_canonical_fixed:
  assumes "(k, v) \<in> set standardizations"
  shows "standardizeBiomarkerName engine (JStr v) = Inr (JStr v)"
proof -
  have "(trim (toLowerCase engine v), v) \<in> set (map (\<lambda>(k, v). (trim (toLowerCase engine v), v)) standardizations)"
    using assms by force
  then consider
      (key) "(trim (toLowerCase engine v), v) \<in> set standardizations"
    | (other) "(trim (toLowerCase engine v), v) \<in> set (map (\<lambda>s. (trim (toLowerCase engine (js s)), js s)) canonical_only)"
    using standardizations_values_cover [of engine] by blast
  then show ?thesis
  proof cases
    case key
    have "distinct (map fst standardizations)"
      using standardizations_distinct_all [of engine] by simp
    then have "map_of standardizations (trim (toLowerCase engine v)) = Some v"
      using key by (rule map_of_is_SomeI)
    moreover have "v \<noteq> []"
      using standardizations_keys_normal [of engine] key by (auto simp: list_all_iff)
    ultimately show ?thesis
      by (simp add: standardizeBiomarkerName_def get_standardization_def js_or_def)
  next
    case other
    then have m: "trim (toLowerCase engine v) \<in> set (map (\<lambda>s. trim (toLowerCase engine (js s))) canonical_only)"
      by force
    have "trim (toLowerCase engine v) \<notin> set (map fst standardizations)"
      using standardizations_distinct_all [of engine] m by auto
    moreover have "trim (toLowerCase engine v) \<notin> set (map fst object_prototype)"
      using standardizations_distinct_all [of engine] m by auto
    ultimately show ?thesis
      by (rule standardize_miss)
  qed
qed

text \<open>
  Standardization is idempotent on every key of the table: a key goes to its canonical
  name, and the canonical name goes to itself.
\<close>

lemma standardize_idempotent_on_keys:
  assumes "(k, v) \<in> set standardizations"
  shows "standardizeBiomarkerName engine (JStr k) = Inr (JStr v) \<and>
         standardizeBiomarkerName engine (JStr v) = Inr (JStr v)"
  using assms standardize_hit standardize_canonical_fixed by blast

text \<open>
  C6 at the name \<open>"constructor"\<close>. It is not a key of the table, lower-cased and
  trimmed or not, and the function does not return it: the property read
  \<open>standardizations["constructor"]\<close> finds the inherited \<open>Object.prototype.constructor\<close>,
  which is truthy, and that function object is the result.
\<close>

theorem standardize_inherited_property:
  "trim (toLowerCase engine (js ''constructor'')) \<notin> set (map fst standardizations) \<and>
   standardizeBiomarkerName engine (JStr (js ''constructor'')) = Inr (JBuiltin ''Object'') \<and>
   standardizeBiomarkerName engine (JStr (js ''constructor'')) \<noteq> Inr (JStr (js ''constructor''))"
proof -
  have n: "trim (toLowerCase engine (js ''constructor'')) = js ''constructor''"
    by (simp add: string_eval)
  have "js ''constructor'' \<in> set (map fst object_prototype)"
    by (simp add: object_prototype_def)
  then have k: "js ''constructor'' \<notin> set (map fst standardizations)"
    using standardizations_distinct_all [of engine] by auto
  then have "map_of standardizations (js ''constructor'') = None"
    by (simp add: map_of_eq_None_iff)
  moreover have "map_of object_prototype (js ''constructor'') = Some (JBuiltin ''Object'')"
    by (simp add: object_prototype_def js_def)
  ultimately have "standardizeBiomarkerName engine (JStr (js ''constructor'')) = Inr (JBuiltin ''Object'')"
    using n by (simp add: standardizeBiomarkerName_def get_standardization_def js_or_def)
  then show ?thesis using n k by simp
qed

section \<open>Properties of unit inference\<close>









subsection \<open>The first token of the fallback expression\<close>













lemmas unit_eval = unitPatterns_def lit_def ci_def js_def nonUnits_def toLowerCase_def plain_unit_def
  lower_unit_def is_letter_def is_digit_def is_word_def is_space_def

lemmas fallback_eval = fallbackMatches_def fallback_at_def alternative1_def alternative2_def
  alternative3_def slash_unit_def boundary_def

lemmas extract_eval = extractUnitFromReferenceRange_def filteredMatches_def unit_eval fallback_eval

text \<open>
  One reference range for each unit expression, in the order of the list. The eighth
  expression, \<open>mIU/[Ll]\<close>, never decides: wherever it matches, the seventh, \<open>IU/[Ll]\<close>,
  matches too and comes first.
\<close>

lemma unitPatterns_samples:
  "map (\<lambda>t. extractUnitFromReferenceRange engine (JStr t))
     [js ''70 - 99 mg/dL'', js ''12 - 16 g/dl'', js ''5 '' @ [956] @ js ''g/L'', js ''mcg/l'',
      js ''1 ng/mL'', js ''2 pg/mL'', js ''3 IU/L'', js ''0.4 - 4.0 mIU/L'', js ''7 - 56 U/L'',
      js ''mmol/L'', [956] @ js ''mol/L'', js ''nmol/L'', js ''x10'' @ [179] @ js ''/'' @ [956] @ js ''L'',
      js ''150 - 400 K/'' @ [956] @ js ''L'', js ''4.5 - 11.0 103/'' @ [956] @ js ''l'',
      js ''cells/'' @ [956] @ js ''L'', js ''5 /'' @ [956] @ js ''L'', js ''< 150 mg/24h'',
      js ''< 2 g/24h'', js ''120 mmHg'', js ''60 - 100 bpm'', js ''37 '' @ [176] @ js ''C'',
      js ''36 - 46 %'', js ''RATIO < 5'', js ''Index'', js ''11 - 13 sec'', js ''5 min'',
      js ''80 - 100 fL'', js ''27 - 33 Pg'']
   = map JStr
     [js ''mg/dL'', js ''g/dl'', [956] @ js ''g/L'', js ''mcg/l'',
      js ''ng/mL'', js ''pg/mL'', js ''IU/L'', js ''IU/L'', js ''U/L'',
      js ''mmol/L'', [956] @ js ''mol/L'', js ''nmol/L'', js ''x10'' @ [179] @ js ''/'' @ [956] @ js ''L'',
      js ''K/'' @ [956] @ js ''L'', js ''103/'' @ [956] @ js ''l'',
      js ''cells/'' @ [956] @ js ''L'', js ''/'' @ [956] @ js ''L'', js ''mg/24h'',
      js ''g/24h'', js ''mmHg'', js ''bpm'', [176] @ js ''C'',
      js ''%'', js ''RATIO'', js ''Index'', js ''sec'', js ''min'',
      js ''fL'', js ''Pg'']"
  by (simp add: extract_eval)



section \<open>Properties of the dataset loader\<close>

lemma trim_Nil_iff: "trim s = [] \<longleftrightarrow> (\<forall>c \<in> set s. is_space c)"
proof
  assume "trim s = []"
  then have "\<forall>c \<in> set (dropWhile is_space s). is_space c"
    by (simp add: trim_def)
  then have "dropWhile is_space s = []"
    by (metis hd_dropWhile list.set_sel(1))
  then show "\<forall>c \<in> set s. is_space c"
    by simp
next
  assume "\<forall>c \<in> set s. is_space c"
  then have d: "dropWhile is_space s = []"
    by simp
  show "trim s = []"
    unfolding trim_def d by simp
qed

lemma row_kept_iff: "row_kept row \<longleftrightarrow> trim (marker_text row) \<noteq> []"
proof (cases "cell_or (row ''Blood Test Marker'') (row ''blood test marker'')")
  case None
  then show ?thesis
    by (simp add: row_kept_def marker_text_def or_empty_def trim_def)
next
  case (Some m)
  then show ?thesis
    by (cases "m = []") (simp_all add: row_kept_def marker_text_def or_empty_def trim_def)
qed

lemma clean_row_marker: "marker (clean_row engine row) = trim (marker_text row)"
  by (simp add: clean_row_def marker_text_def)

lemma toLowerCase_latin1:
  assumes "\<forall>c \<in> set g. c < 256"
  shows "toLowerCase engine g =
     map (\<lambda>c. if (65 \<le> c \<and> c \<le> 90) \<or> (192 \<le> c \<and> c \<le> 222 \<and> c \<noteq> 215) then c + 32 else c) g"
proof -
  have "list_all plain_unit g"
    using assms by (simp add: list_all_iff plain_unit_def)
  then show ?thesis
    by (simp add: toLowerCase_def lower_unit_def)
qed

lemmas loader_eval = clean_row_def row_kept_def marker_text_def cell_or_def or_empty_def
  trim_def toLowerCase_def plain_unit_def lower_unit_def is_space_def js_def

text \<open>
  C7 as stated, for every source table: the loader of \<open>src/index.js\<close> returns the row
  of \<open>raw_sheet\<close> whose marker is three spaces, with its gender \<open>" Male"\<close> neither
  trimmed nor lower-cased and its minimum the number 1, not a string.
\<close>

theorem loadDatasetRows_keeps_blank_marker:
  "loadDatasetRows [dataset_path \<mapsto> \<lparr>raw_first_sheet = raw_sheet\<rparr>] dataset_path = Inr raw_sheet \<and>
   hd raw_sheet \<in> set raw_sheet \<and>
   field (hd raw_sheet) ''Blood Test Marker'' = JStr (js ''   '') \<and>
   trim (js ''   '') = [] \<and>
   field (hd raw_sheet) ''Gender'' = JStr (js '' Male'') \<and>
   field (hd raw_sheet) ''Minimum'' = JNum (Fin 1)"
  by (simp add: loadDatasetRows_def raw_sheet_def field_def trim_def is_space_def js_def)

text \<open>
  C7, amended. When the file exists, the dataset loaded by \<open>loadDatasetWithPrecision\<close>
  is the cleaned image of exactly those rows of the first sheet whose marker text is
  non-empty after trimming, in sheet order. A row whose marker text is empty or all
  white space contributes nothing, whatever its other cells hold: every loaded row has a
  non-empty marker. A loaded row carries the trimmed marker, the gender lower-cased and
  trimmed (for a gender text of Latin-1 code units: \<open>A\<close> to \<open>Z\<close> and U+00C0 to U+00DE
  without U+00D7 moved up by 32), and the texts of the minimum, maximum and severity
  cells as they are (the empty string for an empty cell). The loader \<open>loadDatasetRows\<close>
  of \<open>src/index.js\<close> returns every row of the first sheet, unchanged.
\<close>

theorem load_keeps_marked_rows:
  assumes "fs path = Some wb"
  shows "loadDatasetWithPrecision engine fs path =
           Inr (map (clean_row engine) (filter (\<lambda>row. trim (marker_text row) \<noteq> []) (first_sheet wb))) \<and>
         (\<forall>rows. loadDatasetWithPrecision engine fs path = Inr rows \<longrightarrow>
            (\<forall>r \<in> set rows. marker r \<noteq> []) \<and>
            (\<forall>row \<in> set (first_sheet wb).
               (\<forall>c \<in> set (marker_text row). is_space c) \<longrightarrow> clean_row engine row \<notin> set rows)) \<and>
         (\<forall>row. marker (clean_row engine row) = trim (marker_text row) \<and>
            gender (clean_row engine row) =
              trim (toLowerCase engine (or_empty (cell_or (row ''Gender'') (row ''gender'')))) \<and>
            ((\<forall>c \<in> set (or_empty (cell_or (row ''Gender'') (row ''gender''))). c < 256) \<longrightarrow>
               gender (clean_row engine row) =
                 trim (map (\<lambda>c. if (65 \<le> c \<and> c \<le> 90) \<or> (192 \<le> c \<and> c \<le> 222 \<and> c \<noteq> 215)
                                 then c + 32 else c)
                         (or_empty (cell_or (row ''Gender'') (row ''gender''))))) \<and>
            min_f (clean_row engine row) = or_empty (cell_or (row ''Minimum'') (row ''minimum'')) \<and>
            max_f (clean_row engine row) = or_empty (cell_or (row ''Maximum'') (row ''maximum'')) \<and>
            severity (clean_row engine row) =
              or_empty (cell_or (row ''Severity Score (1 = mild, 5 = highly significant)'')
                                (row ''severity score (1 = mild, 5 = highly significant)''))) \<and>
         (\<forall>rfs rwb. rfs path = Some rwb \<longrightarrow> loadDatasetRows rfs path = Inr (raw_first_sheet rwb))"
proof -
  let ?kept = "map (clean_row engine) (filter (\<lambda>row. trim (marker_text row) \<noteq> []) (first_sheet wb))"
  have kept: "row_kept = (\<lambda>row. trim (marker_text row) \<noteq> [])"
    by (rule ext) (rule row_kept_iff)
  have load: "loadDatasetWithPrecision engine fs path = Inr ?kept"
    using assms by (simp add: loadDatasetWithPrecision_def kept)
  have nonempty: "\<forall>r \<in> set ?kept. marker r \<noteq> []"
    by (auto simp: clean_row_marker)
  have dropped: "\<forall>row \<in> set (first_sheet wb). (\<forall>c \<in> set (marker_text row). is_space c) \<longrightarrow>
      clean_row engine row \<notin> set ?kept"
  proof (intro ballI impI)
    fix row
    assume "\<forall>c \<in> set (marker_text row). is_space c"
    then have "marker (clean_row engine row) = []"
      by (simp add: clean_row_marker trim_Nil_iff)
    then show "clean_row engine row \<notin> set ?kept"
      using nonempty by blast
  qed
  have fields: "\<forall>row. marker (clean_row engine row) = trim (marker_text row) \<and>
            gender (clean_row engine row) =
              trim (toLowerCase engine (or_empty (cell_or (row ''Gender'') (row ''gender'')))) \<and>
            ((\<forall>c \<in> set (or_empty (cell_or (row ''Gender'') (row ''gender''))). c < 256) \<longrightarrow>
               gender (clean_row engine row) =
                 trim (map (\<lambda>c. if (65 \<le> c \<and> c \<le> 90) \<or> (192 \<le> c \<and> c \<le> 222 \<and> c \<noteq> 215)
                                 then c + 32 else c)
                         (or_empty (cell_or (row ''Gender'') (row ''gender''))))) \<and>
            min_f (clean_row engine row) = or_empty (cell_or (row ''Minimum'') (row ''minimum'')) \<and>
            max_f (clean_row engine row) = or_empty (cell_or (row ''Maximum'') (row ''maximum'')) \<and>
            severity (clean_row engine row) =
              or_empty (cell_or (row ''Severity Score (1 = mild, 5 = highly significant)'')
                                (row ''severity score (1 = mild, 5 = highly significant)''))"
    using toLowerCase_latin1 [of _ engine] by (simp add: clean_row_def marker_text_def)
  have raw: "\<forall>rfs rwb. rfs path = Some rwb \<longrightarrow> loadDatasetRows rfs path = Inr (raw_first_sheet rwb)"
    by (simp add: loadDatasetRows_def)
  have rows: "\<forall>rows. loadDatasetWithPrecision engine fs path = Inr rows \<longrightarrow>
            (\<forall>r \<in> set rows. marker r \<noteq> []) \<and>
            (\<forall>row \<in> set (first_sheet wb).
               (\<forall>c \<in> set (marker_text row). is_space c) \<longrightarrow> clean_row engine row \<notin> set rows)"
    using nonempty dropped unfolding load by blast
  show ?thesis
    using load rows fields raw by (intro conjI)
qed

theorem load_keeps_marked_rows_witness:
  "loadDatasetWithPrecision (\<lambda>s. s) [dataset_path \<mapsto> \<lparr>first_sheet = sheet_c\<rparr>] dataset_path =
     Inr [\<lparr>marker = js ''Glucose'', gender = js ''male'', min_f = js ''70'', max_f = js ''99'',
           severity = []\<rparr>,
          \<lparr>marker = js ''TSH'', gender = js ''both'', min_f = [], max_f = [], severity = js ''4''\<rparr>,
          \<lparr>marker = js ''Hb'', gender = js ''m'' @ [228] @ js ''nnlich'', min_f = [], max_f = [],
           severity = []\<rparr>] \<and>
   loadDatasetRows [dataset_path \<mapsto> \<lparr>raw_first_sheet = raw_sheet\<rparr>] dataset_path = Inr raw_sheet"
proof -
  have f: "[dataset_path \<mapsto> \<lparr>first_sheet = sheet_c\<rparr>] dataset_path = Some \<lparr>first_sheet = sheet_c\<rparr>"
    by simp
  have g: "[dataset_path \<mapsto> \<lparr>raw_first_sheet = raw_sheet\<rparr>] dataset_path = Some \<lparr>raw_first_sheet = raw_sheet\<rparr>"
    by simp
  note t = load_keeps_marked_rows
        [of "[dataset_path \<mapsto> \<lparr>first_sheet = sheet_c\<rparr>]" dataset_path "\<lparr>first_sheet = sheet_c\<rparr>" "\<lambda>s. s", OF f]
  have "map (clean_row (\<lambda>s. s)) (filter (\<lambda>row. trim (marker_text row) \<noteq> []) sheet_c) =
     [\<lparr>marker = js ''Glucose'', gender = js ''male'', min_f = js ''70'', max_f = js ''99'',
           severity = []\<rparr>,
          \<lparr>marker = js ''TSH'', gender = js ''both'', min_f = [], max_f = [], severity = js ''4''\<rparr>,
          \<lparr>marker = js ''Hb'', gender = js ''m'' @ [228] @ js ''nnlich'', min_f = [], max_f = [],
           severity = []\<rparr>]"
    by (simp add: sheet_c_def loader_eval)
  then have a: "loadDatasetWithPrecision (\<lambda>s. s) [dataset_path \<mapsto> \<lparr>first_sheet = sheet_c\<rparr>] dataset_path =
     Inr [\<lparr>marker = js ''Glucose'', gender = js ''male'', min_f = js ''70'', max_f = js ''99'',
           severity = []\<rparr>,
          \<lparr>marker = js ''TSH'', gender = js ''both'', min_f = [], max_f = [], severity = js ''4''\<rparr>,
          \<lparr>marker = js ''Hb'', gender = js ''m'' @ [228] @ js ''nnlich'', min_f = [], max_f = [],
           severity = []\<rparr>]"
    using conjunct1 [OF t] by simp
  have b: "loadDatasetRows [dataset_path \<mapsto> \<lparr>raw_first_sheet = raw_sheet\<rparr>] dataset_path = Inr raw_sheet"
    using conjunct2 [OF conjunct2 [OF conjunct2 [OF t]], rule_format,
        of "[dataset_path \<mapsto> \<lparr>raw_first_sheet = raw_sheet\<rparr>]" "\<lparr>raw_first_sheet = raw_sheet\<rparr>"] g
    by simp
  show ?thesis using a b by (rule conjI)
qed

section \<open>Properties of the dataset text\<close>

lemmas csv_eval = generatePrecisionCSV_def csvRow_def quoted_def escape_quotes_def

text \<open>
  C8 at rows a sheet can hold. The quotation mark in a marker is doubled, the one in
  any other field is not: a row with minimum \<open>5"\<close> is written with the field \<open>"5""\<close>.
  And the text does not determine the rows: the files \<open>sheet_a\<close> and \<open>sheet_b\<close> load to
  different datasets and serialize to the same text, so no parser can give back the
  field values of both.
\<close>

theorem csv_quote_not_doubled:
  "generatePrecisionCSV
     [\<lparr>marker = js ''Height'', gender = js ''both'', min_f = js ''5'' @ [34], max_f = js ''6'',
       severity = js ''1''\<rparr>] =
     js ''Marker,Gender,Min,Max,Severity'' @ [10] @
     [34] @ js ''Height'' @ [34] @ js '','' @ [34] @ js ''both'' @ [34] @ js '','' @
     [34] @ js ''5'' @ [34] @ [34] @ js '','' @ [34] @ js ''6'' @ [34] @ js '','' @
     [34] @ js ''1'' @ [34] \<and>
   loadDatasetWithPrecision engine [dataset_path \<mapsto> \<lparr>first_sheet = sheet_a\<rparr>] dataset_path \<noteq>
     loadDatasetWithPrecision engine [dataset_path \<mapsto> \<lparr>first_sheet = sheet_b\<rparr>] dataset_path \<and>
   analyzeWithDataset_dataset engine [dataset_path \<mapsto> \<lparr>first_sheet = sheet_a\<rparr>] dataset_path =
     analyzeWithDataset_dataset engine [dataset_path \<mapsto> \<lparr>first_sheet = sheet_b\<rparr>] dataset_path"
proof -
  have one: "generatePrecisionCSV
     [\<lparr>marker = js ''Height'', gender = js ''both'', min_f = js ''5'' @ [34], max_f = js ''6'',
       severity = js ''1''\<rparr>] =
     js ''Marker,Gender,Min,Max,Severity'' @ [10] @
     [34] @ js ''Height'' @ [34] @ js '','' @ [34] @ js ''both'' @ [34] @ js '','' @
     [34] @ js ''5'' @ [34] @ [34] @ js '','' @ [34] @ js ''6'' @ [34] @ js '','' @
     [34] @ js ''1'' @ [34]"
    by (simp add: csv_eval js_def)
  have a: "loadDatasetWithPrecision engine [dataset_path \<mapsto> \<lparr>first_sheet = sheet_a\<rparr>] dataset_path =
      Inr [\<lparr>marker = js ''Ferritin'', gender = js ''male'' @ [34, 44, 34] @ js ''x'', min_f = js ''1'',
            max_f = js ''2'', severity = js ''3''\<rparr>]"
    by (simp add: loadDatasetWithPrecision_def sheet_a_def loader_eval)
  have b: "loadDatasetWithPrecision engine [dataset_path \<mapsto> \<lparr>first_sheet = sheet_b\<rparr>] dataset_path =
      Inr [\<lparr>marker = js ''Ferritin'', gender = js ''male'', min_f = js ''x'' @ [34, 44, 34] @ js ''1'',
            max_f = js ''2'', severity = js ''3''\<rparr>]"
    by (simp add: loadDatasetWithPrecision_def sheet_b_def loader_eval)
  have ne: "loadDatasetWithPrecision engine [dataset_path \<mapsto> \<lparr>first_sheet = sheet_a\<rparr>] dataset_path \<noteq>
     loadDatasetWithPrecision engine [dataset_path \<mapsto> \<lparr>first_sheet = sheet_b\<rparr>] dataset_path"
    unfolding a b by (simp add: js_def)
  have same: "analyzeWithDataset_dataset engine [dataset_path \<mapsto> \<lparr>first_sheet = sheet_a\<rparr>] dataset_path =
     analyzeWithDataset_dataset engine [dataset_path \<mapsto> \<lparr>first_sheet = sheet_b\<rparr>] dataset_path"
    unfolding analyzeWithDataset_dataset_def a b by (simp add: csv_eval js_def)
  show ?thesis using one ne same by blast
qed

section \<open>Properties of the error response\<close>

text \<open>
  For every path that does not exist (and whose text does not happen to contain the
  phrase of the first branch), the response of the route is the generic one.
\<close>

lemma missing_dataset_any_path:
  assumes "fs p = None"
    and "\<not> str_includes (js ''Dataset file not found: '' @ p) (js ''Unexpected end of JSON'')"
  shows "analyzeWithDataset_dataset engine fs p =
     Inl \<lparr>success = False,
          message = js ''Analysis failed: Dataset file not found: '' @ p,
          error_type = js ''analysis_error''\<rparr>"
proof -
  have l: "loadDatasetWithPrecision engine fs p = Inl (Error (js ''Dataset file not found: '' @ p))"
    using assms(1) by (simp add: loadDatasetWithPrecision_def)
  have m: "message_of (Error (js ''Dataset file not found: '' @ p)) = js ''Dataset file not found: '' @ p"
    and c: "code_of (Error (js ''Dataset file not found: '' @ p)) = JUndefined"
    by (simp_all add: message_of_def code_of_def)
  have j: "js ''Analysis failed: '' @ js ''Dataset file not found: '' @ p =
      js ''Analysis failed: Dataset file not found: '' @ p"
    by (simp add: js_def)
  show ?thesis
    unfolding analyzeWithDataset_dataset_def l
    using assms(2) j by (simp add: analysis_error_response_def m c)
qed

text \<open>
  C9 at a path that does not exist. The loader throws a plain \<open>Error\<close> whose only mark
  is its message; it has no \<open>code\<close>, so the handler's \<open>ENOENT\<close> branch does not apply
  and the response carries the error type \<open>analysis_error\<close>, the same as for any other
  failure of the analysis. The branch \<open>missing_dataset\<close> is taken only for an error
  that carries the code \<open>ENOENT\<close>.
\<close>

theorem missing_dataset_reported_as_generic:
  "loadDatasetWithPrecision engine Map.empty dataset_path =
     Inl (Error (js ''Dataset file not found: '' @ dataset_path)) \<and>
   code_of (Error (js ''Dataset file not found: '' @ dataset_path)) = JUndefined \<and>
   analyzeWithDataset_dataset engine Map.empty dataset_path =
     Inl \<lparr>success = False,
          message = js ''Analysis failed: Dataset file not found: '' @ dataset_path,
          error_type = js ''analysis_error''\<rparr> \<and>
   error_type (analysis_error_response (TypeError ''biomarker.value.replace is not a function'')) =
     js ''analysis_error'' \<and>
   error_type (analysis_error_response (SystemError ''ENOENT'' (js ''ENOENT: no such file or directory''))) =
     js ''missing_dataset''"
  by (simp add: loadDatasetWithPrecision_def analyzeWithDataset_dataset_def analysis_error_response_def
      str_includes_def message_of_def code_of_def dataset_path_def js_def)

end
